theory Spec2Isabelle
  imports Complex_Main
begin

section \<open>Tensors as lists of reals\<close>

text \<open>
  The training scripts (\<^verbatim>\<open>four_room_grid_world/algorithms/ppo_rnd.py\<close> and
  \<^verbatim>\<open>old/jonatan_stuff/ppo_rle.py\<close>) compute on torch tensors. A one-dimensional tensor is
  modelled as a \<^typ>\<open>real list\<close>, a buffer of shape \<open>(num_steps, num_envs)\<close> as a list of
  rows. Arithmetic on numbers is exact (no rounding, no overflow). The reductions that
  torch answers with \<open>nan\<close> on a small tensor (the mean of no entries, the unbiased variance
  and standard deviation of fewer than two) return an option, \<open>None\<close> standing for \<open>nan\<close>; a
  function that computes with such a result returns \<open>None\<close> when its own result is \<open>nan\<close>.
\<close>

definition mean_of :: "real list \<Rightarrow> real" where
  \<comment> \<open>the sum of the entries over their number: the mean of a tensor that has entries\<close>
  "mean_of x = sum_list x / real (length x)"

definition var_of :: "real list \<Rightarrow> real" where
  \<comment> \<open>the unbiased estimator (divisor \<open>n - 1\<close>) of the variance of a tensor of two entries or more\<close>
  "var_of x = sum_list (map (\<lambda>a. (a - mean_of x)\<^sup>2) x) / (real (length x) - 1)"

definition std_of :: "real list \<Rightarrow> real" where
  "std_of x = sqrt (var_of x)"

definition torch_mean :: "real list \<Rightarrow> real option" where
  \<comment> \<open>\<^verbatim>\<open>x.mean()\<close>, \<^verbatim>\<open>torch.mean(x, dim=0)\<close> on a one-dimensional tensor: \<open>nan\<close> on the empty one\<close>
  "torch_mean x = (if x = [] then None else Some (mean_of x))"

definition torch_var :: "real list \<Rightarrow> real option" where
  \<comment> \<open>\<^verbatim>\<open>torch.var(x, dim=0)\<close>: torch's default is the unbiased estimator, \<open>nan\<close> below two entries\<close>
  "torch_var x = (if length x < 2 then None else Some (var_of x))"

definition torch_std :: "real list \<Rightarrow> real option" where
  \<comment> \<open>\<^verbatim>\<open>x.std()\<close>: the square root of the unbiased variance, \<open>nan\<close> below two entries\<close>
  "torch_std x = (if length x < 2 then None else Some (std_of x))"

definition clamp :: "real \<Rightarrow> real \<Rightarrow> real \<Rightarrow> real" where
  \<comment> \<open>\<^verbatim>\<open>torch.clamp(x, lo, hi)\<close>\<close>
  "clamp x lo hi = min (max x lo) hi"

definition gather :: "'a list \<Rightarrow> nat list \<Rightarrow> 'a list" where
  \<comment> \<open>\<^verbatim>\<open>b[mb_inds]\<close>: indexing a flattened buffer with a tensor of indices\<close>
  "gather b mb_inds = map (\<lambda>i. b ! i) mb_inds"


section \<open>Configuration\<close>

datatype py_error = ZeroDivisionError

record Args =
  num_envs :: int
  num_steps :: int
  num_minibatches :: int
  total_timesteps :: int
  batch_size :: int
  minibatch_size :: int
  num_iterations :: int

definition parse_args :: "Args \<Rightarrow> py_error + Args" where
  \<comment> \<open>\<^verbatim>\<open>ppo_rnd.py\<close>, the two assignments after \<^verbatim>\<open>parser.parse_args()\<close>; the argument is the
      namespace argparse returned. \<^verbatim>\<open>//\<close> is floor division and raises on a zero divisor.\<close>
  "parse_args args =
     (let args = args\<lparr>batch_size := num_envs args * num_steps args\<rparr>
      in if num_minibatches args = 0 then Inl ZeroDivisionError
         else Inr (args\<lparr>minibatch_size := batch_size args div num_minibatches args\<rparr>))"

definition rle_runtime_args :: "Args \<Rightarrow> py_error + Args" where
  \<comment> \<open>\<^verbatim>\<open>ppo_rle.py\<close>, the three assignments after \<^verbatim>\<open>tyro.cli(Args)\<close>\<close>
  "rle_runtime_args args =
     (let args = args\<lparr>batch_size := num_envs args * num_steps args\<rparr>
      in if num_minibatches args = 0 then Inl ZeroDivisionError
         else let args = args\<lparr>minibatch_size := batch_size args div num_minibatches args\<rparr>
              in if batch_size args = 0 then Inl ZeroDivisionError
                 else Inr (args\<lparr>num_iterations := total_timesteps args div batch_size args\<rparr>))"


section \<open>RunningMeanStd\<close>

text \<open>
  The statistic is used with \<^verbatim>\<open>shape=()\<close> for both reward streams, so mean and variance
  are scalars here; for the observation statistic the same arithmetic is applied to every
  feature dimension. \<^verbatim>\<open>count\<close> is a Python float. The record holds a statistic whose mean
  and variance are numbers. \<^verbatim>\<open>update\<close> returns \<open>None\<close> when a moment of the batch is \<open>nan\<close>: the
  arithmetic of the merge then leaves \<open>nan\<close> in the statistic (in its variance, and for an
  empty batch in its mean too), and every later update keeps it.
\<close>

record RunningMeanStd =
  mean :: real
  var :: real
  count :: real

definition RunningMeanStd_init :: "real \<Rightarrow> RunningMeanStd" where
  "RunningMeanStd_init epsilon = \<lparr>mean = 0, var = 1, count = epsilon\<rparr>"

definition update_mean_var_count_from_moments ::
  "real \<Rightarrow> real \<Rightarrow> real \<Rightarrow> real \<Rightarrow> real \<Rightarrow> real \<Rightarrow> real \<times> real \<times> real" where
  "update_mean_var_count_from_moments mean0 var0 count0 batch_mean batch_var batch_count =
     (let delta = batch_mean - mean0;
          tot_count = count0 + batch_count;
          new_mean = mean0 + delta * batch_count / tot_count;
          m_a = var0 * count0;
          m_b = batch_var * batch_count;
          M2 = m_a + m_b + delta\<^sup>2 * count0 * batch_count / tot_count;
          new_var = M2 / tot_count;
          new_count = tot_count
      in (new_mean, new_var, new_count))"

definition update_from_moments :: "RunningMeanStd \<Rightarrow> real \<Rightarrow> real \<Rightarrow> real \<Rightarrow> RunningMeanStd" where
  "update_from_moments self batch_mean batch_var batch_count =
     (case update_mean_var_count_from_moments (mean self) (var self) (count self)
             batch_mean batch_var batch_count of
        (new_mean, new_var, new_count) \<Rightarrow>
          self\<lparr>mean := new_mean, var := new_var, count := new_count\<rparr>)"

definition RunningMeanStd_update :: "RunningMeanStd \<Rightarrow> real list \<Rightarrow> RunningMeanStd option" where
  "RunningMeanStd_update self x =
     (let batch_mean = torch_mean x;
          batch_var = torch_var x;
          batch_count = real (length x)
      in case (batch_mean, batch_var) of
           (Some bm, Some bv) \<Rightarrow> Some (update_from_moments self bm bv batch_count)
         | _ \<Rightarrow> None)"

definition merge_moments ::
  "real \<times> real \<times> real \<Rightarrow> real \<times> real \<times> real \<Rightarrow> real \<times> real \<times> real" where
  \<comment> \<open>proof device: \<^const>\<open>update_mean_var_count_from_moments\<close> on two (mean, var, count) triples\<close>
  "merge_moments s b = (case s of (m, v, c) \<Rightarrow> case b of (bm, bv, bc) \<Rightarrow>
      update_mean_var_count_from_moments m v c bm bv bc)"

definition moments_of :: "RunningMeanStd \<Rightarrow> real \<times> real \<times> real" where
  \<comment> \<open>proof device: the fields of the statistic as a triple\<close>
  "moments_of s = (mean s, var s, count s)"

definition power_sums :: "real \<times> real \<times> real \<Rightarrow> real \<times> real \<times> real" where
  \<comment> \<open>proof device: count, sum and sum of squares that a (mean, var, count) triple stands for\<close>
  "power_sums s = (case s of (m, v, c) \<Rightarrow> (c, c * m, c * v + c * m\<^sup>2))"


section \<open>RewardForwardFilter\<close>

text \<open>
  The filter keeps a reference to a tensor and writes through it, and the tensor it is
  handed is \<^verbatim>\<open>rewards[i]\<close>, a view of row \<open>i\<close> that shares the storage of the rollout buffer. So
  tensors live in a store: an address names the storage of a one-dimensional tensor (a row
  of a buffer, or a tensor of its own), \<^verbatim>\<open>self.rewems = rews\<close> copies the address, the indexed
  assignment \<^verbatim>\<open>self.rewems[mask] = ...\<close> writes the cell in place, arithmetic and
  \<^verbatim>\<open>deepcopy\<close> allocate a new cell, at the address \<open>fresh\<close>, the first one not yet in use.
  \<^verbatim>\<open>not_done\<close> is only read and is passed by value.
\<close>

record heap =
  cells :: "nat \<Rightarrow> real list"
  fresh :: nat

definition alloc :: "real list \<Rightarrow> heap \<Rightarrow> nat \<times> heap" where
  "alloc v h = (fresh h, h\<lparr>cells := (cells h)(fresh h := v), fresh := Suc (fresh h)\<rparr>)"

record RewardForwardFilter =
  rewems :: "nat option"
  gamma :: real

definition RewardForwardFilter_init :: "real \<Rightarrow> RewardForwardFilter" where
  "RewardForwardFilter_init g = \<lparr>rewems = None, gamma = g\<rparr>"

definition masked_assign :: "real \<Rightarrow> real list \<Rightarrow> real list \<Rightarrow> real list \<Rightarrow> real list" where
  \<comment> \<open>\<^verbatim>\<open>mask = torch.where(not_done == 1.0); acc[mask] = acc[mask] * g + rews[mask]\<close>, the three
      tensors having one entry per environment\<close>
  "masked_assign g acc rews not_done =
     map (\<lambda>n. if not_done ! n = 1 then acc ! n * g + rews ! n else acc ! n) [0..<length acc]"

definition RewardForwardFilter_update ::
  "RewardForwardFilter \<Rightarrow> nat \<Rightarrow> real list option \<Rightarrow> heap \<Rightarrow> nat \<times> RewardForwardFilter \<times> heap" where
  \<comment> \<open>returns the address of the returned tensor, the filter and the store\<close>
  "RewardForwardFilter_update self rews not_done h =
     (case not_done of
        None \<Rightarrow>
          (case rewems self of
             None \<Rightarrow> (rews, self\<lparr>rewems := Some rews\<rparr>, h)
           | Some a \<Rightarrow>
               (case alloc (map2 (\<lambda>x r. x * gamma self + r) (cells h a) (cells h rews)) h of
                  (b, h') \<Rightarrow> (b, self\<lparr>rewems := Some b\<rparr>, h')))
      | Some nd \<Rightarrow>
          (case rewems self of
             None \<Rightarrow>
               (case alloc (cells h rews) h of
                  (b, h') \<Rightarrow> (b, self\<lparr>rewems := Some rews\<rparr>, h'))
           | Some a \<Rightarrow>
               (let h1 = h\<lparr>cells := (cells h)(a := masked_assign (gamma self) (cells h a) (cells h rews) nd)\<rparr>
                in case alloc (cells h1 a) h1 of
                     (b, h') \<Rightarrow> (b, self, h'))))"

fun discount_rows ::
  "(nat \<times> real list) list \<Rightarrow> RewardForwardFilter \<Rightarrow> heap \<Rightarrow> nat list \<times> RewardForwardFilter \<times> heap" where
  \<comment> \<open>\<^verbatim>\<open>[f.update(rewards[i], not_dones[i]) for i in range(num_steps)]\<close>, over the list of
      (row, not-done row) pairs\<close>
  "discount_rows [] f h = ([], f, h)"
| "discount_rows ((r, nd) # rest) f h =
     (case RewardForwardFilter_update f r (Some nd) h of
        (b, f1, h1) \<Rightarrow>
          (case discount_rows rest f1 h1 of
             (bs, f2, h2) \<Rightarrow> (b # bs, f2, h2)))"

definition divide_rows :: "nat list \<Rightarrow> real \<Rightarrow> heap \<Rightarrow> heap" where
  \<comment> \<open>\<^verbatim>\<open>rewards /= d\<close>, in place, on a buffer whose rows are the given cells\<close>
  "divide_rows rows d h = fold (\<lambda>r h. h\<lparr>cells := (cells h)(r := map (\<lambda>x. x / d) (cells h r))\<rparr>) rows h"

definition normalize_rewards ::
  "nat \<Rightarrow> nat list \<Rightarrow> real list list \<Rightarrow> RewardForwardFilter \<Rightarrow> RunningMeanStd \<Rightarrow> heap
     \<Rightarrow> (RewardForwardFilter \<times> RunningMeanStd \<times> heap) option" where
  \<comment> \<open>\<^verbatim>\<open>ppo_rnd.py\<close>, reward normalisation of one stream: \<open>rewards\<close> lists the cells of the rows of
      the rewards buffer, \<open>dones\<close> is the buffer of done flags; \<open>None\<close> when the statistic is
      \<open>nan\<close>, and the division leaves \<open>nan\<close> in the whole buffer\<close>
  "normalize_rewards n_steps rewards dones discounted_reward reward_rms h =
     (let not_dones = map (map (\<lambda>d. 1 - d)) dones
      in case discount_rows (map (\<lambda>i. (rewards ! i, not_dones ! i)) [0..<n_steps])
                discounted_reward h of
           (bs, discounted_reward', h1) \<Rightarrow>
             (let reward_per_env = map (cells h1) bs
              in case RunningMeanStd_update reward_rms (concat reward_per_env) of
                   None \<Rightarrow> None
                 | Some reward_rms' \<Rightarrow>
                     (let h2 = divide_rows rewards (sqrt (var reward_rms')) h1
                      in Some (discounted_reward', reward_rms', h2))))"


section \<open>Generalised advantage estimation\<close>

text \<open>
  Rows of the buffers are indexed by the step, entries of a row by the environment. The
  Python scalars \<^verbatim>\<open>lastgaelam = 0\<close> and \<^verbatim>\<open>int_nextnonterminal = 1.0\<close> broadcast over the
  environments and are rows of \<open>n_envs\<close> equal entries here.
\<close>

definition gae_row ::
  "real \<Rightarrow> real \<Rightarrow> real list \<Rightarrow> real list \<Rightarrow> real list \<Rightarrow> real list \<Rightarrow> real list \<Rightarrow> real list" where
  \<comment> \<open>\<^verbatim>\<open>delta = r + g * nextvalues * nextnonterminal - v\<close> and
      \<^verbatim>\<open>delta + g * lam * nextnonterminal * lastgaelam\<close>, elementwise over the environments\<close>
  "gae_row g lam r nextvalues nextnonterminal v lastgaelam =
     map (\<lambda>n. (r ! n + g * nextvalues ! n * nextnonterminal ! n - v ! n)
               + g * lam * nextnonterminal ! n * lastgaelam ! n) [0..<length r]"

fun loop_down :: "nat \<Rightarrow> (nat \<Rightarrow> 's \<Rightarrow> 's) \<Rightarrow> 's \<Rightarrow> 's" where
  \<comment> \<open>\<^verbatim>\<open>for t in reversed(range(n)): s = body(t, s)\<close>\<close>
  "loop_down 0 body s = s"
| "loop_down (Suc t) body s = loop_down t body (body t s)"

record rnd_rollout =
  rewards :: "real list list"
  curiosity_rewards :: "real list list"
  dones :: "real list list"
  ext_values :: "real list list"
  int_values :: "real list list"
  next_done :: "real list"
  next_value_ext :: "real list"
  next_value_int :: "real list"

record rnd_gae_state =
  ext_advantages :: "real list list"
  int_advantages :: "real list list"
  ext_lastgaelam :: "real list"
  int_lastgaelam :: "real list"

definition rnd_gae_body ::
  "real \<Rightarrow> real \<Rightarrow> real \<Rightarrow> nat \<Rightarrow> nat \<Rightarrow> rnd_rollout \<Rightarrow> nat \<Rightarrow> rnd_gae_state \<Rightarrow> rnd_gae_state" where
  "rnd_gae_body g int_gamma gae_lambda n_steps n_envs b t s =
     (let ext_nextnonterminal =
            (if t = n_steps - 1 then map (\<lambda>d. 1 - d) (next_done b)
             else map (\<lambda>d. 1 - d) (dones b ! (t + 1)));
          int_nextnonterminal = replicate n_envs 1;
          ext_nextvalues = (if t = n_steps - 1 then next_value_ext b else ext_values b ! (t + 1));
          int_nextvalues = (if t = n_steps - 1 then next_value_int b else int_values b ! (t + 1));
          ext_new = gae_row g gae_lambda (rewards b ! t) ext_nextvalues ext_nextnonterminal
                      (ext_values b ! t) (ext_lastgaelam s);
          int_new = gae_row int_gamma gae_lambda (curiosity_rewards b ! t) int_nextvalues
                      int_nextnonterminal (int_values b ! t) (int_lastgaelam s)
      in s\<lparr>ext_advantages := (ext_advantages s)[t := ext_new], ext_lastgaelam := ext_new,
            int_advantages := (int_advantages s)[t := int_new], int_lastgaelam := int_new\<rparr>)"

definition rnd_gae ::
  "real \<Rightarrow> real \<Rightarrow> real \<Rightarrow> nat \<Rightarrow> nat \<Rightarrow> rnd_rollout
     \<Rightarrow> (real list list \<times> real list list) \<times> (real list list \<times> real list list)" where
  \<comment> \<open>\<^verbatim>\<open>ppo_rnd.py\<close>: ((ext_advantages, int_advantages), (ext_returns, int_returns))\<close>
  "rnd_gae g int_gamma gae_lambda n_steps n_envs b =
     (let s = loop_down n_steps (rnd_gae_body g int_gamma gae_lambda n_steps n_envs b)
                \<lparr>ext_advantages = replicate n_steps (replicate n_envs 0),
                 int_advantages = replicate n_steps (replicate n_envs 0),
                 ext_lastgaelam = replicate n_envs 0,
                 int_lastgaelam = replicate n_envs 0\<rparr>;
          ext_returns = map2 (map2 (+)) (ext_advantages s) (ext_values b);
          int_returns = map2 (map2 (+)) (int_advantages s) (int_values b)
      in ((ext_advantages s, int_advantages s), (ext_returns, int_returns)))"

record rle_rollout =
  rle_rewards :: "real list list"
  rle_dones :: "real list list"
  rle_values :: "real list list"
  rle_next_done :: "real list"
  rle_next_value :: "real list"

definition rle_gae_body ::
  "real \<Rightarrow> real \<Rightarrow> nat \<Rightarrow> rle_rollout \<Rightarrow> nat \<Rightarrow> real list list \<times> real list
     \<Rightarrow> real list list \<times> real list" where
  \<comment> \<open>the state is (advantages, lastgaelam)\<close>
  "rle_gae_body g gae_lambda n_steps b t s =
     (let nextnonterminal =
            (if t = n_steps - 1 then map (\<lambda>d. 1 - d) (rle_next_done b)
             else map (\<lambda>d. 1 - d) (rle_dones b ! (t + 1)));
          nextvalues = (if t = n_steps - 1 then rle_next_value b else rle_values b ! (t + 1));
          new = gae_row g gae_lambda (rle_rewards b ! t) nextvalues nextnonterminal
                  (rle_values b ! t) (snd s)
      in ((fst s)[t := new], new))"

definition rle_gae ::
  "real \<Rightarrow> real \<Rightarrow> nat \<Rightarrow> nat \<Rightarrow> rle_rollout \<Rightarrow> real list list \<times> real list list" where
  \<comment> \<open>\<^verbatim>\<open>ppo_rle.py\<close>: (advantages, returns)\<close>
  "rle_gae g gae_lambda n_steps n_envs b =
     (let s = loop_down n_steps (rle_gae_body g gae_lambda n_steps b)
                (replicate n_steps (replicate n_envs 0), replicate n_envs 0);
          advantages = fst s;
          returns = map2 (map2 (+)) advantages (rle_values b)
      in (advantages, returns))"


definition rnd_shaped :: "nat \<Rightarrow> nat \<Rightarrow> rnd_rollout \<Rightarrow> bool" where
  \<comment> \<open>the buffers of \<^verbatim>\<open>ppo_rnd.py\<close> have \<open>T\<close> rows of \<open>N\<close> entries, the vectors \<open>N\<close> entries\<close>
  "rnd_shaped T N b \<longleftrightarrow>
     length (rewards b) = T \<and> length (curiosity_rewards b) = T \<and> length (dones b) = T
     \<and> length (ext_values b) = T \<and> length (int_values b) = T
     \<and> (\<forall>t<T. length (rewards b ! t) = N \<and> length (curiosity_rewards b ! t) = N
              \<and> length (dones b ! t) = N \<and> length (ext_values b ! t) = N
              \<and> length (int_values b ! t) = N)
     \<and> length (next_done b) = N \<and> length (next_value_ext b) = N \<and> length (next_value_int b) = N"

definition rle_shaped :: "nat \<Rightarrow> nat \<Rightarrow> rle_rollout \<Rightarrow> bool" where
  \<comment> \<open>the same for the buffers of \<^verbatim>\<open>ppo_rle.py\<close>\<close>
  "rle_shaped T N b \<longleftrightarrow>
     length (rle_rewards b) = T \<and> length (rle_dones b) = T \<and> length (rle_values b) = T
     \<and> (\<forall>t<T. length (rle_rewards b ! t) = N \<and> length (rle_dones b ! t) = N
              \<and> length (rle_values b ! t) = N)
     \<and> length (rle_next_done b) = N \<and> length (rle_next_value b) = N"

text \<open>
  Proof devices: the row that one pass of a loop body writes, as a function of the step and
  of the accumulator, and the initial state of the loop of \<^verbatim>\<open>ppo_rnd.py\<close>.
\<close>

definition ext_F :: "real \<Rightarrow> real \<Rightarrow> nat \<Rightarrow> rnd_rollout \<Rightarrow> nat \<Rightarrow> real list \<Rightarrow> real list" where
  "ext_F g lam T b t lg =
     gae_row g lam (rewards b ! t)
       (if t = T - 1 then next_value_ext b else ext_values b ! (t + 1))
       (if t = T - 1 then map (\<lambda>d. 1 - d) (next_done b) else map (\<lambda>d. 1 - d) (dones b ! (t + 1)))
       (ext_values b ! t) lg"

definition int_F :: "real \<Rightarrow> real \<Rightarrow> nat \<Rightarrow> nat \<Rightarrow> rnd_rollout \<Rightarrow> nat \<Rightarrow> real list \<Rightarrow> real list" where
  "int_F ig lam T N b t lg =
     gae_row ig lam (curiosity_rewards b ! t)
       (if t = T - 1 then next_value_int b else int_values b ! (t + 1))
       (replicate N 1)
       (int_values b ! t) lg"

definition rle_F :: "real \<Rightarrow> real \<Rightarrow> nat \<Rightarrow> rle_rollout \<Rightarrow> nat \<Rightarrow> real list \<Rightarrow> real list" where
  "rle_F g lam T b t lg =
     gae_row g lam (rle_rewards b ! t)
       (if t = T - 1 then rle_next_value b else rle_values b ! (t + 1))
       (if t = T - 1 then map (\<lambda>d. 1 - d) (rle_next_done b)
        else map (\<lambda>d. 1 - d) (rle_dones b ! (t + 1)))
       (rle_values b ! t) lg"

definition rnd_init :: "nat \<Rightarrow> nat \<Rightarrow> rnd_gae_state" where
  "rnd_init T N = \<lparr>ext_advantages = replicate T (replicate N 0),
                 int_advantages = replicate T (replicate N 0),
                 ext_lastgaelam = replicate N 0,
                 int_lastgaelam = replicate N 0\<rparr>"


section \<open>Flattening the batch\<close>

definition reshape_flat :: "'a list list \<Rightarrow> 'a list" where
  \<comment> \<open>\<^verbatim>\<open>buf.reshape(-1)\<close> and \<^verbatim>\<open>buf.reshape((-1,) + shape)\<close> of a row-major (steps, envs) buffer\<close>
  "reshape_flat buf = concat buf"

definition repeat_interleave :: "nat \<Rightarrow> 'a list \<Rightarrow> 'a list" where
  \<comment> \<open>\<^verbatim>\<open>xs.repeat_interleave(k, dim=0)\<close>: every entry repeated \<open>k\<close> times in a row\<close>
  "repeat_interleave k xs = concat (map (replicate k) xs)"

definition rle_flatten ::
  "nat \<Rightarrow> 'o list list \<Rightarrow> real list list \<Rightarrow> 'a list list \<Rightarrow> real list list \<Rightarrow> real list list
     \<Rightarrow> real list list \<Rightarrow> 'z list
     \<Rightarrow> 'o list \<times> real list \<times> 'a list \<times> real list \<times> real list \<times> real list \<times> 'z list" where
  \<comment> \<open>\<^verbatim>\<open>ppo_rle.py\<close>, "Flatten the batch"\<close>
  "rle_flatten n_steps obs logprobs actions advantages returns values latent_vectors =
     (let b_obs = reshape_flat obs;
          b_logprobs = reshape_flat logprobs;
          b_actions = reshape_flat actions;
          b_advantages = reshape_flat advantages;
          b_returns = reshape_flat returns;
          b_values = reshape_flat values;
          b_latents = repeat_interleave n_steps latent_vectors
      in (b_obs, b_logprobs, b_actions, b_advantages, b_returns, b_values, b_latents))"


section \<open>Losses of the optimisation step\<close>

definition normalize_advantages :: "real list \<Rightarrow> real list" where
  \<comment> \<open>\<^verbatim>\<open>(mb_advantages - mb_advantages.mean()) / (mb_advantages.std() + 1e-8)\<close> for a minibatch
      of two samples or more, where mean and standard deviation are numbers\<close>
  "normalize_advantages xs = map (\<lambda>a. (a - mean_of xs) / (std_of xs + 1 / 10 ^ 8)) xs"

definition pg_loss ::
  "bool \<Rightarrow> real \<Rightarrow> real list \<Rightarrow> real list \<Rightarrow> real list \<Rightarrow> nat list \<Rightarrow> real option" where
  \<comment> \<open>the policy loss of one minibatch, the same text in both scripts; \<open>newlogprob\<close> is what the
      agent returns for the minibatch. When the mean or the standard deviation of the
      advantages is \<open>nan\<close>, every normalised advantage is \<open>nan\<close>, and so are the two products,
      their maximum and the mean: the loss is \<open>nan\<close>.\<close>
  "pg_loss norm_adv clip_coef newlogprob b_logprobs b_advantages mb_inds =
     (let logratio = map2 (-) newlogprob (gather b_logprobs mb_inds);
          ratio = map exp logratio;
          mb_advantages = gather b_advantages mb_inds;
          normalized =
            (if norm_adv
             then (case (torch_mean mb_advantages, torch_std mb_advantages) of
                     (Some m, Some sd) \<Rightarrow>
                       Some (map (\<lambda>a. (a - m) / (sd + 1 / 10 ^ 8)) mb_advantages)
                   | _ \<Rightarrow> None)
             else Some mb_advantages)
      in case normalized of
           None \<Rightarrow> None
         | Some mb_advantages \<Rightarrow>
             (let pg_loss1 = map2 (\<lambda>a r. - a * r) mb_advantages ratio;
                  pg_loss2 = map2 (\<lambda>a r. - a * clamp r (1 - clip_coef) (1 + clip_coef))
                               mb_advantages ratio
              in torch_mean (map2 max pg_loss1 pg_loss2)))"

definition rle_v_loss ::
  "bool \<Rightarrow> real \<Rightarrow> real list \<Rightarrow> real list \<Rightarrow> real list \<Rightarrow> nat list \<Rightarrow> real" where
  \<comment> \<open>\<^verbatim>\<open>ppo_rle.py\<close>, the value loss of one minibatch, which is a slice \<^verbatim>\<open>b_inds[start:end]\<close> with
      \<^verbatim>\<open>start < batch_size\<close> and has at least one index\<close>
  "rle_v_loss clip_vloss clip_coef newvalue b_returns b_values mb_inds =
     (if clip_vloss then
        (let v_loss_unclipped = map2 (\<lambda>v r. (v - r)\<^sup>2) newvalue (gather b_returns mb_inds);
             v_clipped = map2 (\<lambda>old v. old + clamp (v - old) (- clip_coef) clip_coef)
                           (gather b_values mb_inds) newvalue;
             v_loss_clipped = map2 (\<lambda>c r. (c - r)\<^sup>2) v_clipped (gather b_returns mb_inds);
             v_loss_max = map2 max v_loss_unclipped v_loss_clipped
         in 0.5 * mean_of v_loss_max)
      else 0.5 * mean_of (map2 (\<lambda>v r. (v - r)\<^sup>2) newvalue (gather b_returns mb_inds)))"

definition rnd_v_loss ::
  "bool \<Rightarrow> real \<Rightarrow> real list \<Rightarrow> real list \<Rightarrow> real list \<Rightarrow> real list \<Rightarrow> real list \<Rightarrow> nat list \<Rightarrow> real" where
  \<comment> \<open>\<^verbatim>\<open>ppo_rnd.py\<close>, the value loss of one minibatch, which is a slice \<^verbatim>\<open>b_inds[start:end]\<close> with
      \<^verbatim>\<open>start < batch_size\<close> and has at least one index\<close>
  "rnd_v_loss clip_vloss clip_coef new_ext_values new_int_values b_ext_returns b_int_returns
       b_ext_values mb_inds =
     (let ext_v_loss =
            (if clip_vloss then
               (let ext_v_loss_unclipped =
                      map2 (\<lambda>v r. (v - r)\<^sup>2) new_ext_values (gather b_ext_returns mb_inds);
                    ext_v_clipped = map2 (\<lambda>old v. old + clamp (v - old) (- clip_coef) clip_coef)
                                      (gather b_ext_values mb_inds) new_ext_values;
                    ext_v_loss_clipped =
                      map2 (\<lambda>c r. (c - r)\<^sup>2) ext_v_clipped (gather b_ext_returns mb_inds);
                    ext_v_loss_max = map2 max ext_v_loss_unclipped ext_v_loss_clipped
                in 0.5 * mean_of ext_v_loss_max)
             else 0.5 * mean_of
                    (map2 (\<lambda>v r. (v - r)\<^sup>2) new_ext_values (gather b_ext_returns mb_inds)));
          int_v_loss = 0.5 * mean_of
                         (map2 (\<lambda>v r. (v - r)\<^sup>2) new_int_values (gather b_int_returns mb_inds));
          v_loss = ext_v_loss + int_v_loss
      in v_loss)"

definition spec_clipped_value_loss ::
  "real \<Rightarrow> real list \<Rightarrow> real list \<Rightarrow> real list \<Rightarrow> real" where
  \<comment> \<open>the spec's words for one head with clipping enabled: clip the value change to within
      the clip coefficient, 0.5 times the mean of the elementwise maximum of the clipped and
      unclipped squared errors against the returns\<close>
  "spec_clipped_value_loss clip_coef new old ret =
     0.5 * mean_of
       (map (\<lambda>i. max ((new ! i - ret ! i)\<^sup>2)
                     ((old ! i + clamp (new ! i - old ! i) (- clip_coef) clip_coef - ret ! i)\<^sup>2))
          [0..<length new])"

definition spec_mse_value_loss :: "real list \<Rightarrow> real list \<Rightarrow> real" where
  \<comment> \<open>one head without clipping: 0.5 times the mean squared error against the returns\<close>
  "spec_mse_value_loss new ret =
     0.5 * mean_of (map (\<lambda>i. (new ! i - ret ! i)\<^sup>2) [0..<length new])"

definition mask_of :: "real \<Rightarrow> real list \<Rightarrow> real list" where
  \<comment> \<open>\<^verbatim>\<open>(mask < update_proportion).type(torch.FloatTensor)\<close>, \<open>rand\<close> being what
      \<^verbatim>\<open>torch.rand(len(forward_loss))\<close> drew\<close>
  "mask_of update_proportion rand = map (\<lambda>u. if u < update_proportion then 1 else 0) rand"

definition mask_divisor :: "real list \<Rightarrow> real" where
  \<comment> \<open>\<^verbatim>\<open>torch.max(mask.sum(), torch.tensor([1]))\<close>\<close>
  "mask_divisor m = max (sum_list m) 1"

definition forward_loss :: "real \<Rightarrow> real list list \<Rightarrow> real list list \<Rightarrow> real list \<Rightarrow> real" where
  \<comment> \<open>\<^verbatim>\<open>ppo_rnd.py\<close>, the predictor's loss of one minibatch: the per-sample mean squared error
      over the features (\<^verbatim>\<open>rnd_output_size = 256\<close> of them), masked, summed and divided\<close>
  "forward_loss update_proportion predict_next_state_feature target_next_state_feature rand =
     (let per_sample = map2 (\<lambda>p t. mean_of (map2 (\<lambda>a b. (a - b)\<^sup>2) p t))
                         predict_next_state_feature target_next_state_feature;
          m = mask_of update_proportion rand
      in sum_list (map2 (*) per_sample m) / mask_divisor m)"


section \<open>Theorems\<close>

subsection \<open>RunningMeanStd: the merge identity\<close>

lemma update_from_moments_eq:
  "update_from_moments s bm bv bc =
     \<lparr>mean = mean s + (bm - mean s) * bc / (count s + bc),
      var = (var s * count s + bv * bc + (bm - mean s)\<^sup>2 * count s * bc / (count s + bc))
              / (count s + bc),
      count = count s + bc\<rparr>"
  by (simp add: update_from_moments_def update_mean_var_count_from_moments_def Let_def)

lemma update_from_moments_count_pos:
  "0 < count s \<Longrightarrow> 0 \<le> bc \<Longrightarrow> 0 < count (update_from_moments s bm bv bc)"
  by (simp add: update_from_moments_eq)

lemma RunningMeanStd_update_finite:
  "2 \<le> length x \<Longrightarrow>
   RunningMeanStd_update s x = Some (update_from_moments s (mean_of x) (var_of x) (real (length x)))"
  by (auto simp: RunningMeanStd_update_def torch_mean_def torch_var_def Let_def)

lemma RunningMeanStd_update_nan:
  "length x < 2 \<Longrightarrow> RunningMeanStd_update s x = None"
  by (auto simp: RunningMeanStd_update_def torch_mean_def torch_var_def Let_def)

text \<open>
  Claim C4, as the code has it. \<^verbatim>\<open>RunningMeanStd.update\<close> folds a batch into
  (mean, var, count) by the parallel merge identity whenever the mean and the variance it
  computes for the batch are numbers: with \<open>delta = batch_mean - mean\<close> and
  \<open>total = count + batch_count\<close> the new mean is \<open>mean + delta * batch_count / total\<close>, the new
  variance is
  \<open>(var * count + batch_var * batch_count + delta\<^sup>2 * count * batch_count / total) / total\<close>
  and the new count is \<open>total\<close>, \<open>batch_count\<close> being the length of the batch. The merge itself,
  from moments that are numbers and with \<open>batch_count = 0\<close>, leaves a statistic of positive
  count unchanged (the count starts at \<open>epsilon = 1e-4\<close> and only grows). But \<^verbatim>\<open>update\<close> on an
  empty batch is no no-op: the mean and the variance of an empty tensor are \<open>nan\<close>, and so
  are the mean and the variance of the statistic afterwards.
\<close>

theorem running_mean_std_update_merge:
  "(torch_mean x = Some batch_mean \<and> torch_var x = Some batch_var \<longrightarrow>
      RunningMeanStd_update s x =
        Some \<lparr>mean = mean s + (batch_mean - mean s) * real (length x) / (count s + real (length x)),
              var = (var s * count s + batch_var * real (length x)
                       + (batch_mean - mean s)\<^sup>2 * count s * real (length x)
                           / (count s + real (length x)))
                      / (count s + real (length x)),
              count = count s + real (length x)\<rparr>)
   \<and> (0 < count s \<longrightarrow> update_from_moments s m v 0 = s)
   \<and> RunningMeanStd_update s [] = None"
proof (intro conjI impI)
  assume "torch_mean x = Some batch_mean \<and> torch_var x = Some batch_var"
  then show "RunningMeanStd_update s x =
        Some \<lparr>mean = mean s + (batch_mean - mean s) * real (length x) / (count s + real (length x)),
              var = (var s * count s + batch_var * real (length x)
                       + (batch_mean - mean s)\<^sup>2 * count s * real (length x)
                           / (count s + real (length x)))
                      / (count s + real (length x)),
              count = count s + real (length x)\<rparr>"
    by (simp add: RunningMeanStd_update_def Let_def update_from_moments_eq)
next
  assume "0 < count s"
  then show "update_from_moments s m v 0 = s"
    by (simp add: update_from_moments_eq)
next
  show "RunningMeanStd_update s [] = None"
    by (simp add: RunningMeanStd_update_nan)
qed

theorem running_mean_std_update_merge_witness:
  "torch_mean [1, 3] = Some 2 \<and> torch_var [1, 3] = Some 2
   \<and> RunningMeanStd_update (RunningMeanStd_init (1 / 10000)) [1, 3]
     = Some \<lparr>mean = 40000 / 20001, var = 800140001 / 400040001, count = 20001 / 10000\<rparr>
   \<and> 0 < count (RunningMeanStd_init (1 / 10000))
   \<and> update_from_moments (RunningMeanStd_init (1 / 10000)) 5 7 0 = RunningMeanStd_init (1 / 10000)
   \<and> RunningMeanStd_update (RunningMeanStd_init (1 / 10000)) [] = None"
proof -
  have m: "torch_mean [1, 3] = Some 2" and v: "torch_var [1, 3] = Some 2"
    by (simp_all add: torch_mean_def torch_var_def mean_of_def var_of_def power2_eq_square)
  show ?thesis
    using m v running_mean_std_update_merge
      [where x = "[1, 3]" and batch_mean = 2 and batch_var = 2
         and s = "RunningMeanStd_init (1 / 10000)" and m = 5 and v = 7]
    by (simp add: RunningMeanStd_init_def power2_eq_square)
qed

text \<open>
  Claim C4 as stated fails: an update with a batch of no samples (\<open>batch_count = 0\<close>) does
  not leave the statistic as it was; its mean and variance are \<open>nan\<close> afterwards.
\<close>

theorem running_mean_std_update_empty_counterexample:
  "RunningMeanStd_update (RunningMeanStd_init (1 / 10000)) []
     \<noteq> Some (RunningMeanStd_init (1 / 10000))"
  by (simp add: RunningMeanStd_update_nan)

subsection \<open>RunningMeanStd: associativity of the merge\<close>

text \<open>
  A (mean, var, count) triple with a non-zero count stands for a count, a sum and a sum of
  squares; the merge adds these componentwise, and addition is associative.
\<close>

lemma power_sums_merge:
  assumes "c + bc \<noteq> 0"
  shows "power_sums (merge_moments (m, v, c) (bm, bv, bc)) =
         (c + bc, c * m + bc * bm, (c * v + c * m\<^sup>2) + (bc * bv + bc * bm\<^sup>2))"
proof -
  define t where "t = c + bc"
  define d where "d = bm - m"
  define m' where "m' = m + d * bc / t"
  define M2 where "M2 = v * c + bv * bc + d\<^sup>2 * c * bc / t"
  have t: "t \<noteq> 0" using assms by (simp add: t_def)
  have bm: "bm = m + d" by (simp add: d_def)
  have c: "c = t - bc" by (simp add: t_def)
  have tm: "t * m' = t * m + d * bc"
    using t by (simp add: m'_def distrib_left)
  have tM: "t * M2 = t * (v * c + bv * bc) + d\<^sup>2 * c * bc"
    using t by (simp add: M2_def distrib_left)
  have "t * (M2 + t * m'\<^sup>2) = t * M2 + (t * m')\<^sup>2"
    by (simp add: power2_eq_square algebra_simps)
  also have "\<dots> = t * (v * c + bv * bc) + d\<^sup>2 * c * bc + (t * m + d * bc)\<^sup>2"
    by (simp only: tm tM)
  also have "\<dots> = t * (c * v + c * m\<^sup>2 + (bc * bv + bc * bm\<^sup>2))"
    unfolding bm unfolding c by (simp add: power2_eq_square algebra_simps)
  finally have "M2 + t * m'\<^sup>2 = c * v + c * m\<^sup>2 + (bc * bv + bc * bm\<^sup>2)"
    using t by simp
  moreover have "t * (M2 / t) = M2" using t by simp
  moreover have "t * m' = c * m + bc * bm"
    unfolding tm unfolding bm unfolding c by (simp add: algebra_simps)
  ultimately show ?thesis
    by (simp add: power_sums_def merge_moments_def update_mean_var_count_from_moments_def
        Let_def t_def [symmetric] d_def [symmetric] m'_def [symmetric] M2_def [symmetric])
qed

lemma power_sums_inj:
  assumes "power_sums s = power_sums s'" "fst (power_sums s) \<noteq> 0"
  shows "s = s'"
proof -
  obtain m v c where s: "s = (m, v, c)" by (cases s)
  obtain m' v' c' where s': "s' = (m', v', c')" by (cases s')
  have e: "(c, c * m, c * v + c * m\<^sup>2) = (c', c' * m', c' * v' + c' * m'\<^sup>2)"
    by (rule assms(1) [unfolded s s' power_sums_def prod.case])
  from e have c: "c = c'" by blast
  from assms(2) have cz: "c \<noteq> 0" by (simp add: s power_sums_def)
  from e have 1: "c * m = c * m'" by blast
  from e have 2: "c * v + c * m\<^sup>2 = c * v' + c * m'\<^sup>2" by blast
  from 1 cz have m: "m = m'" by simp
  from 2 m cz have "v = v'" by simp
  with c m show ?thesis by (simp add: s s')
qed

lemma merge_moments_assoc:
  assumes "0 < c" "0 \<le> nb" "0 \<le> nc" "0 < nb + nc"
  shows "merge_moments (merge_moments (m, v, c) (mb, vb, nb)) (mc, vc, nc)
       = merge_moments (m, v, c) (merge_moments (mb, vb, nb) (mc, vc, nc))"
proof -
  obtain m1 v1 c1 where 1: "merge_moments (m, v, c) (mb, vb, nb) = (m1, v1, c1)"
    by (cases "merge_moments (m, v, c) (mb, vb, nb)")
  obtain m2 v2 c2 where 2: "merge_moments (mb, vb, nb) (mc, vc, nc) = (m2, v2, c2)"
    by (cases "merge_moments (mb, vb, nb) (mc, vc, nc)")
  have p1: "power_sums (m1, v1, c1) = (c + nb, c * m + nb * mb, (c * v + c * m\<^sup>2) + (nb * vb + nb * mb\<^sup>2))"
    using power_sums_merge[of c nb m v mb vb] assms by (simp add: 1)
  have p2: "power_sums (m2, v2, c2) = (nb + nc, nb * mb + nc * mc, (nb * vb + nb * mb\<^sup>2) + (nc * vc + nc * mc\<^sup>2))"
    using power_sums_merge[of nb nc mb vb mc vc] assms by (simp add: 2)
  have e1: "(c1, c1 * m1, c1 * v1 + c1 * m1\<^sup>2) =
      (c + nb, c * m + nb * mb, (c * v + c * m\<^sup>2) + (nb * vb + nb * mb\<^sup>2))"
    by (rule p1 [unfolded power_sums_def prod.case])
  have e2: "(c2, c2 * m2, c2 * v2 + c2 * m2\<^sup>2) =
      (nb + nc, nb * mb + nc * mc, (nb * vb + nb * mb\<^sup>2) + (nc * vc + nc * mc\<^sup>2))"
    by (rule p2 [unfolded power_sums_def prod.case])
  from e1 have c1: "c1 = c + nb" by blast
  from e1 have s1: "c1 * m1 = c * m + nb * mb" by blast
  from e1 have q1: "c1 * v1 + c1 * m1\<^sup>2 = (c * v + c * m\<^sup>2) + (nb * vb + nb * mb\<^sup>2)" by blast
  from e2 have c2: "c2 = nb + nc" by blast
  from e2 have s2: "c2 * m2 = nb * mb + nc * mc" by blast
  from e2 have q2: "c2 * v2 + c2 * m2\<^sup>2 = (nb * vb + nb * mb\<^sup>2) + (nc * vc + nc * mc\<^sup>2)" by blast
  have l: "power_sums (merge_moments (m1, v1, c1) (mc, vc, nc)) =
        (c1 + nc, c1 * m1 + nc * mc, (c1 * v1 + c1 * m1\<^sup>2) + (nc * vc + nc * mc\<^sup>2))"
    using power_sums_merge[of c1 nc m1 v1 mc vc] assms c1 by simp
  have r: "power_sums (merge_moments (m, v, c) (m2, v2, c2)) =
        (c + c2, c * m + c2 * m2, (c * v + c * m\<^sup>2) + (c2 * v2 + c2 * m2\<^sup>2))"
    using power_sums_merge[of c c2 m v m2 v2] assms c2 by simp
  have "power_sums (merge_moments (m1, v1, c1) (mc, vc, nc)) =
        power_sums (merge_moments (m, v, c) (m2, v2, c2))"
    by (simp only: l r s1 s2 q1 q2) (simp add: c1 c2)
  moreover have "fst (power_sums (merge_moments (m1, v1, c1) (mc, vc, nc))) \<noteq> 0"
    unfolding l using assms c1 by simp
  ultimately show ?thesis
    unfolding 1 2 by (rule power_sums_inj)
qed


lemma moments_of_update:
  "moments_of (update_from_moments s bm bv bc) = merge_moments (moments_of s) (bm, bv, bc)"
  by (simp add: moments_of_def merge_moments_def update_from_moments_def split: prod.splits)

lemma moments_of_inj: "moments_of s = moments_of s' \<Longrightarrow> s = s'"
  by (cases s, cases s') (simp add: moments_of_def)

text \<open>
  The merge of moments is associative: from a statistic of positive count, merging the
  moments of A, of B and of C in turn gives the same (mean, var, count) as merging those
  of A and then the merge of the moments of B and C.
\<close>

lemma update_from_moments_assoc:
  assumes "0 < count s" "0 \<le> na" "0 \<le> nb" "0 \<le> nc" "0 < nb + nc"
  shows "update_from_moments (update_from_moments (update_from_moments s ma va na) mb vb nb) mc vc nc
       = (case update_mean_var_count_from_moments mb vb nb mc vc nc of
            (m, v, n) \<Rightarrow> update_from_moments (update_from_moments s ma va na) m v n)"
proof -
  define s1 where "s1 = update_from_moments s ma va na"
  have pos: "0 < count s1"
    unfolding s1_def using assms(1,2) by (rule update_from_moments_count_pos)
  obtain m v n where bc: "update_mean_var_count_from_moments mb vb nb mc vc nc = (m, v, n)"
    by (cases "update_mean_var_count_from_moments mb vb nb mc vc nc")
  then have bc': "merge_moments (mb, vb, nb) (mc, vc, nc) = (m, v, n)"
    by (simp add: merge_moments_def)
  have "moments_of (update_from_moments (update_from_moments s1 mb vb nb) mc vc nc)
        = merge_moments (merge_moments (mean s1, var s1, count s1) (mb, vb, nb)) (mc, vc, nc)"
    by (simp add: moments_of_update) (simp add: moments_of_def)
  also have "\<dots> = merge_moments (mean s1, var s1, count s1) (merge_moments (mb, vb, nb) (mc, vc, nc))"
    using pos assms(3-5) by (rule merge_moments_assoc)
  also have "\<dots> = moments_of (update_from_moments s1 m v n)"
    by (simp add: moments_of_update bc') (simp add: moments_of_def)
  finally have "update_from_moments (update_from_moments s1 mb vb nb) mc vc nc
        = update_from_moments s1 m v n"
    by (rule moments_of_inj)
  then show ?thesis
    by (simp add: s1_def bc)
qed

text \<open>
  Claim C5, evaluated on the code for the batches \<open>A = [0, 1]\<close>, \<open>B = [5, 6]\<close>, \<open>C = [7, 9]\<close> and
  a fresh statistic. \<^verbatim>\<open>update\<close> takes the variance of a batch from \<^verbatim>\<open>torch.var\<close>, the unbiased
  estimator, and merges it as if it were the population variance that the merge identity
  is about (the class is headed as the code of OpenAI baselines, which uses \<^verbatim>\<open>np.var\<close>, and
  by the link to the parallel algorithm). The moments of a concatenated batch are then
  not the merge of the moments of its parts, and the result depends on how the samples
  are batched: mean and count agree, the variance does not. Updating with A and B
  together and then C, with A and then B and C together, and with A, B and C in turn
  gives three different variances.
\<close>

theorem running_mean_std_update_batching:
  "map_option var (Option.bind (RunningMeanStd_update (RunningMeanStd_init (1 / 10000)) ([0, 1] @ [5, 6]))
       (\<lambda>s. RunningMeanStd_update s [7, 9]))
     = Some (129606260003 / 10800360003)
   \<and> map_option var (Option.bind (RunningMeanStd_update (RunningMeanStd_init (1 / 10000)) [0, 1])
       (\<lambda>s. RunningMeanStd_update s ([5, 6] @ [7, 9])))
     = Some (116556042503 / 10800360003)
   \<and> map_option var (Option.bind (Option.bind
         (RunningMeanStd_update (RunningMeanStd_init (1 / 10000)) [0, 1])
         (\<lambda>s. RunningMeanStd_update s [5, 6])) (\<lambda>s. RunningMeanStd_update s [7, 9]))
     = Some (38602010001 / 3600120001)
   \<and> Option.bind (RunningMeanStd_update (RunningMeanStd_init (1 / 10000)) ([0, 1] @ [5, 6]))
       (\<lambda>s. RunningMeanStd_update s [7, 9])
     \<noteq> Option.bind (RunningMeanStd_update (RunningMeanStd_init (1 / 10000)) [0, 1])
       (\<lambda>s. RunningMeanStd_update s ([5, 6] @ [7, 9]))"
  by (simp add: RunningMeanStd_update_finite update_from_moments_eq RunningMeanStd_init_def
      mean_of_def var_of_def power2_eq_square)

subsection \<open>RewardForwardFilter\<close>

lemma masked_assign_nth:
  "n < length acc \<Longrightarrow>
   masked_assign g acc rews nd ! n = (if nd ! n = 1 then acc ! n * g + rews ! n else acc ! n)"
  by (simp add: masked_assign_def)

lemma length_masked_assign: "length (masked_assign g acc rews nd) = length acc"
  by (simp add: masked_assign_def)

text \<open>
  Claim C1, as the code has it. A call \<^verbatim>\<open>update(rews, not_done)\<close> with a mask: when the
  filter has no accumulator yet (the first call) the accumulator takes the values of
  \<open>rews\<close>, whatever \<open>not_done\<close> says; otherwise, for each environment slot where \<open>not_done\<close> is 1
  the accumulator becomes \<open>accumulator * gamma + reward\<close>, and for every other slot the
  accumulator keeps its value (it is not overwritten with the raw reward), and no other
  tensor changes. The call returns a copy of the accumulator after the update: a newly
  allocated tensor with the accumulator's values, which later calls do not touch. For
  one environment, \<open>gamma = 0.5\<close> and rewards \<open>[1, 1, 1]\<close> over three calls the returned values
  are \<open>[1, 1.5, 1.5]\<close> for the not-done flags \<open>[1, 1, 0]\<close> and \<open>[1, 1.5, 1.75]\<close> for \<open>[1, 1, 1]\<close>.
\<close>

theorem reward_forward_filter_update_masked:
  "(case RewardForwardFilter_update self rews (Some not_done) h of
      (b, self', h') \<Rightarrow>
        b = fresh h \<and> fresh h' = Suc (fresh h) \<and> gamma self' = gamma self
        \<and> (case rewems self of
             None \<Rightarrow>
               (\<exists>a. rewems self' = Some a \<and> cells h' a = cells h rews)
               \<and> cells h' b = cells h rews
           | Some a \<Rightarrow>
               rewems self' = Some a \<and> length (cells h' a) = length (cells h a)
               \<and> (\<forall>n<length (cells h a).
                     cells h' a ! n =
                       (if not_done ! n = 1 then cells h a ! n * gamma self + cells h rews ! n
                        else cells h a ! n))
               \<and> cells h' b = cells h' a
               \<and> (\<forall>c. c \<noteq> a \<and> c \<noteq> b \<longrightarrow> cells h' c = cells h c)))
   \<and> (case discount_rows [(0, [1]), (1, [1]), (2, [0])] (RewardForwardFilter_init (1 / 2))
          \<lparr>cells = (\<lambda>_. [])(0 := [1], 1 := [1], 2 := [1]), fresh = 3\<rparr> of
        (bs, f, h) \<Rightarrow> map (cells h) bs) = [[1], [3 / 2], [3 / 2]]
   \<and> (case discount_rows [(0, [1]), (1, [1]), (2, [1])] (RewardForwardFilter_init (1 / 2))
          \<lparr>cells = (\<lambda>_. [])(0 := [1], 1 := [1], 2 := [1]), fresh = 3\<rparr> of
        (bs, f, h) \<Rightarrow> distinct bs \<and> map (cells h) bs = [[1], [3 / 2], [7 / 4]])"
proof (intro conjI)
  show "case RewardForwardFilter_update self rews (Some not_done) h of
      (b, self', h') \<Rightarrow>
        b = fresh h \<and> fresh h' = Suc (fresh h) \<and> gamma self' = gamma self
        \<and> (case rewems self of
             None \<Rightarrow>
               (\<exists>a. rewems self' = Some a \<and> cells h' a = cells h rews)
               \<and> cells h' b = cells h rews
           | Some a \<Rightarrow>
               rewems self' = Some a \<and> length (cells h' a) = length (cells h a)
               \<and> (\<forall>n<length (cells h a).
                     cells h' a ! n =
                       (if not_done ! n = 1 then cells h a ! n * gamma self + cells h rews ! n
                        else cells h a ! n))
               \<and> cells h' b = cells h' a
               \<and> (\<forall>c. c \<noteq> a \<and> c \<noteq> b \<longrightarrow> cells h' c = cells h c))"
    by (cases "rewems self")
      (auto simp: RewardForwardFilter_update_def alloc_def Let_def masked_assign_nth
        length_masked_assign)
next
  show "(case discount_rows [(0, [1]), (1, [1]), (2, [0])] (RewardForwardFilter_init (1 / 2))
          \<lparr>cells = (\<lambda>_. [])(0 := [1], 1 := [1], 2 := [1]), fresh = 3\<rparr> of
        (bs, f, h) \<Rightarrow> map (cells h) bs) = [[1], [3 / 2], [3 / 2]]"
    by (simp add: RewardForwardFilter_update_def RewardForwardFilter_init_def alloc_def
        masked_assign_def Let_def)
next
  show "case discount_rows [(0, [1]), (1, [1]), (2, [1])] (RewardForwardFilter_init (1 / 2))
          \<lparr>cells = (\<lambda>_. [])(0 := [1], 1 := [1], 2 := [1]), fresh = 3\<rparr> of
        (bs, f, h) \<Rightarrow> distinct bs \<and> map (cells h) bs = [[1], [3 / 2], [7 / 4]]"
    by (simp add: RewardForwardFilter_update_def RewardForwardFilter_init_def alloc_def
        masked_assign_def Let_def)
qed

theorem reward_forward_filter_update_masked_witness:
  "(case RewardForwardFilter_update \<lparr>rewems = Some 0, gamma = 1 / 2\<rparr> 1 (Some [1, 0])
          \<lparr>cells = (\<lambda>_. [])(0 := [4, 6], 1 := [1, 1]), fresh = 2\<rparr> of
      (b, self', h') \<Rightarrow>
        b = 2 \<and> fresh h' = 3 \<and> self' = \<lparr>rewems = Some 0, gamma = 1 / 2\<rparr>
        \<and> cells h' 0 = [3, 6] \<and> cells h' 1 = [1, 1] \<and> cells h' 2 = [3, 6])"
  using reward_forward_filter_update_masked
    [where self = "\<lparr>rewems = Some 0, gamma = 1 / 2\<rparr>" and rews = 1 and not_done = "[1, 0]"
       and h = "\<lparr>cells = (\<lambda>_. [])(0 := [4, 6], 1 := [1, 1]), fresh = 2\<rparr>"]
  by (simp add: RewardForwardFilter_update_def alloc_def Let_def masked_assign_def)

text \<open>
  Claim C1 as stated fails: on the third call of its example the slot's \<open>not_done\<close> is 0,
  the accumulator is left at 1.5 and 1.5 is returned, not the raw reward 1.
\<close>

theorem reward_forward_filter_reset_counterexample:
  "(case discount_rows [(0, [1]), (1, [1]), (2, [0])] (RewardForwardFilter_init (1 / 2))
          \<lparr>cells = (\<lambda>_. [])(0 := [1], 1 := [1], 2 := [1]), fresh = 3\<rparr> of
      (bs, f, h) \<Rightarrow> map (cells h) bs) \<noteq> [[1], [3 / 2], [1]]"
  by (simp add: RewardForwardFilter_update_def RewardForwardFilter_init_def alloc_def
      masked_assign_def Let_def)

subsection \<open>Reward normalisation\<close>

lemma scaled_by_sqrt_neq: "0 < v \<Longrightarrow> 3 / (2 * sqrt v) \<noteq> 1 / sqrt v"
proof -
  assume "0 < v"
  then have "0 < sqrt v" by simp
  then show ?thesis by (simp add: field_simps)
qed

text \<open>
  Claim C9, evaluated on the code at the first training iteration with two steps, one
  environment, rewards \<open>[[1], [1]]\<close>, no episode end and \<open>gamma = 0.5\<close>. The three operations
  run in the order the claim gives, but the filter's first call binds its accumulator to
  the row view \<^verbatim>\<open>rewards[0]\<close> and the later masked assignments write through it: when the
  buffer is divided, its first row holds the discounted sum 1.5 and no longer the raw
  reward 1. The second row is the raw reward over the standard deviation of the
  discounted stream, the first row is not.
\<close>

theorem normalize_rewards_first_row_overwritten:
  "(case normalize_rewards 2 [0, 1] [[0], [0]] (RewardForwardFilter_init (1 / 2))
          (RunningMeanStd_init (1 / 10000))
          \<lparr>cells = (\<lambda>_. [])(0 := [1], 1 := [1]), fresh = 2\<rparr> of
      None \<Rightarrow> False
    | Some (f, rms, h) \<Rightarrow>
        cells h 1 = [1 / sqrt (var rms)] \<and> cells h 0 = [3 / 2 / sqrt (var rms)]
        \<and> cells h 0 \<noteq> [1 / sqrt (var rms)] \<and> rewems f = Some 0)"
  by (simp add: normalize_rewards_def RewardForwardFilter_update_def RewardForwardFilter_init_def
      alloc_def masked_assign_def Let_def divide_rows_def RunningMeanStd_update_finite
      update_from_moments_eq RunningMeanStd_init_def mean_of_def var_of_def upt_rec
      numeral_2_eq_2 power2_eq_square scaled_by_sqrt_neq)

subsection \<open>Configuration\<close>

text \<open>
  Claim C3, as the code has it. Neither script checks that the batch size is a multiple
  of the number of minibatches. For every non-zero \<^verbatim>\<open>num_minibatches\<close> the set-up computes
  \<open>batch_size = num_envs * num_steps\<close> and \<open>minibatch_size = batch_size // num_minibatches\<close>
  (rounded down) and raises nothing; the only error of these computations is the
  \<^verbatim>\<open>ZeroDivisionError\<close> of a zero divisor (\<^verbatim>\<open>num_minibatches = 0\<close>, and in \<^verbatim>\<open>ppo_rle.py\<close> also
  \<^verbatim>\<open>batch_size = 0\<close>).
\<close>

theorem parse_args_floor_division:
  "parse_args a =
     (if num_minibatches a = 0 then Inl ZeroDivisionError
      else Inr (a\<lparr>batch_size := num_envs a * num_steps a,
                   minibatch_size := (num_envs a * num_steps a) div num_minibatches a\<rparr>))
   \<and> rle_runtime_args a =
     (if num_minibatches a = 0 \<or> num_envs a * num_steps a = 0 then Inl ZeroDivisionError
      else Inr (a\<lparr>batch_size := num_envs a * num_steps a,
                   minibatch_size := (num_envs a * num_steps a) div num_minibatches a,
                   num_iterations := total_timesteps a div (num_envs a * num_steps a)\<rparr>))"
  by (simp add: parse_args_def rle_runtime_args_def Let_def)

theorem parse_args_floor_division_witness:
  "parse_args \<lparr>num_envs = 4, num_steps = 128, num_minibatches = 5, total_timesteps = 500000,
        batch_size = 0, minibatch_size = 0, num_iterations = 0\<rparr>
     = Inr \<lparr>num_envs = 4, num_steps = 128, num_minibatches = 5, total_timesteps = 500000,
        batch_size = 512, minibatch_size = 102, num_iterations = 0\<rparr>
   \<and> rle_runtime_args \<lparr>num_envs = 4, num_steps = 128, num_minibatches = 5,
        total_timesteps = 500000, batch_size = 0, minibatch_size = 0, num_iterations = 0\<rparr>
     = Inr \<lparr>num_envs = 4, num_steps = 128, num_minibatches = 5, total_timesteps = 500000,
        batch_size = 512, minibatch_size = 102, num_iterations = 976\<rparr>"
  using parse_args_floor_division
    [of "\<lparr>num_envs = 4, num_steps = 128, num_minibatches = 5, total_timesteps = 500000,
        batch_size = 0, minibatch_size = 0, num_iterations = 0\<rparr>"]
  by simp

text \<open>
  Claim C3 as stated fails: with the defaults of \<^verbatim>\<open>ppo_rnd.py\<close> (32 environments, 128
  steps) and \<^verbatim>\<open>--num-minibatches 3\<close> the batch size 4096 is not a multiple of 3, and
  \<^verbatim>\<open>parse_args\<close> returns normally with the minibatch size 1365.
\<close>

theorem parse_args_indivisible_counterexample:
  "\<not> 3 dvd (32 * 128 :: int)
   \<and> parse_args \<lparr>num_envs = 32, num_steps = 128, num_minibatches = 3, total_timesteps = 2500000,
        batch_size = 0, minibatch_size = 0, num_iterations = 0\<rparr>
     = Inr \<lparr>num_envs = 32, num_steps = 128, num_minibatches = 3, total_timesteps = 2500000,
        batch_size = 4096, minibatch_size = 1365, num_iterations = 0\<rparr>"
  by (simp add: parse_args_def Let_def)

subsection \<open>The masked predictor loss\<close>

lemma sum_list_mask_of: "sum_list (mask_of p rand) = real (length (filter (\<lambda>u. u < p) rand))"
  by (induction rand) (simp_all add: mask_of_def)

lemma masked_sum_none:
  "filter (\<lambda>u. u < p) rand = [] \<Longrightarrow> sum_list (map2 (*) xs (mask_of p rand)) = 0"
proof (induction rand arbitrary: xs)
  case Nil
  then show ?case by (simp add: mask_of_def)
next
  case (Cons u rand)
  then have u: "\<not> u < p" and r: "filter (\<lambda>u. u < p) rand = []"
    by (auto split: if_splits)
  show ?case
  proof (cases xs)
    case Nil
    then show ?thesis by simp
  next
    case (Cons x xs')
    with Cons.IH [OF r, of xs'] u show ?thesis
      by (simp add: mask_of_def)
  qed
qed

text \<open>
  Claim C10. Whatever the minibatch and whatever the random draw, the divisor of the
  predictor's loss is the larger of the number of selected samples and 1, so it is at
  least 1, and a mask that selects no sample gives the loss 0.
\<close>

theorem forward_loss_divisor:
  "mask_divisor (mask_of p rand) = max (real (length (filter (\<lambda>u. u < p) rand))) 1
   \<and> 1 \<le> mask_divisor (mask_of p rand)
   \<and> forward_loss p predict target rand =
       sum_list (map2 (*) (map2 (\<lambda>x y. mean_of (map2 (\<lambda>a b. (a - b)\<^sup>2) x y)) predict target)
                   (mask_of p rand))
         / max (real (length (filter (\<lambda>u. u < p) rand))) 1
   \<and> (filter (\<lambda>u. u < p) rand = [] \<longrightarrow> forward_loss p predict target rand = 0)"
  by (simp add: mask_divisor_def sum_list_mask_of forward_loss_def Let_def masked_sum_none)

theorem forward_loss_divisor_witness:
  "filter (\<lambda>u. u < 3 / 4) [4 / 5, 9 / 10 :: real] = []
   \<and> mask_divisor (mask_of (3 / 4) [4 / 5, 9 / 10]) = 1
   \<and> forward_loss (3 / 4) [[1, 2], [3, 4]] [[0, 0], [1, 1]] [4 / 5, 9 / 10] = 0"
  using forward_loss_divisor [of "3 / 4" "[4 / 5, 9 / 10]" "[[1, 2], [3, 4]]" "[[0, 0], [1, 1]]"]
  by simp

subsection \<open>Flattening the batch\<close>

lemma concat_nth_uniform:
  "\<forall>r\<in>set buf. length r = N \<Longrightarrow> i < length buf * N \<Longrightarrow>
   concat buf ! i = buf ! (i div N) ! (i mod N)"
proof (induction buf arbitrary: i)
  case Nil
  then show ?case by simp
next
  case (Cons r rs)
  have N: "0 < N" using Cons.prems(2) by (cases N) simp_all
  have lr: "length r = N" using Cons.prems(1) by simp
  show ?case
  proof (cases "i < N")
    case True
    then show ?thesis by (simp add: lr nth_append)
  next
    case False
    then have ge: "N \<le> i" by simp
    have i': "i - N < length rs * N" using Cons.prems(2) ge by simp
    have "concat (r # rs) ! i = concat rs ! (i - N)"
      using False by (simp add: nth_append lr)
    also have "\<dots> = rs ! ((i - N) div N) ! ((i - N) mod N)"
      using Cons.IH [of "i - N"] Cons.prems(1) i' by simp
    also have "\<dots> = (r # rs) ! (i div N) ! (i mod N)"
      using ge N by (simp add: le_div_geq le_mod_geq)
    finally show ?thesis .
  qed
qed

lemma repeat_interleave_nth:
  "i < length zs * k \<Longrightarrow> repeat_interleave k zs ! i = zs ! (i div k)"
proof -
  assume i: "i < length zs * k"
  have k: "0 < k" using i by (cases k) simp_all
  have "repeat_interleave k zs ! i = map (replicate k) zs ! (i div k) ! (i mod k)"
    unfolding repeat_interleave_def
    using i by (intro concat_nth_uniform) auto
  also have "i div k < length zs"
    using i k by (simp add: less_mult_imp_div_less)
  then have "map (replicate k) zs ! (i div k) ! (i mod k) = zs ! (i div k)"
    using k by simp
  finally show ?thesis .
qed

lemma reshape_flat_nth:
  "\<forall>r\<in>set buf. length r = N \<Longrightarrow> i < length buf * N \<Longrightarrow>
   reshape_flat buf ! i = buf ! (i div N) ! (i mod N)"
  unfolding reshape_flat_def by (rule concat_nth_uniform)

text \<open>
  Claim C2, evaluated on the code of \<^verbatim>\<open>ppo_rle.py\<close> for two steps and two environments.
  Every buffer is flattened step-major (\<open>reshape_flat_nth\<close>: index \<open>i\<close> holds step
  \<open>i div num_envs\<close>, environment \<open>i mod num_envs\<close>), but the latent vectors are laid out by
  \<^verbatim>\<open>repeat_interleave\<close>, environment-major (\<open>repeat_interleave_nth\<close>: index \<open>i\<close> holds the
  latent of environment \<open>i div num_steps\<close>). Observations are tagged (step, environment)
  and latents by their environment: at index 1 the observation is that of environment 1
  and the latent that of environment 0, at index 2 the other way round.
\<close>

theorem rle_flatten_latents_misaligned:
  "(case rle_flatten 2 [[(0::nat, 0::nat), (0, 1)], [(1, 0), (1, 1)]] [[0, 0], [0, 0]]
          [[0::nat, 0], [0, 0]] [[0, 0], [0, 0]] [[0, 0], [0, 0]] [[0, 0], [0, 0]] [0::nat, 1] of
      (b_obs, b_logprobs, b_actions, b_advantages, b_returns, b_values, b_latents) \<Rightarrow>
        b_obs ! 1 = (0, 1) \<and> b_latents ! 1 = 0 \<and> b_obs ! 2 = (1, 0) \<and> b_latents ! 2 = 1)"
  by (simp add: rle_flatten_def reshape_flat_def repeat_interleave_def numeral_2_eq_2)

subsection \<open>Value loss\<close>

lemma map2_conv_nth:
  "length xs = length ys \<Longrightarrow> map2 f xs ys = map (\<lambda>i. f (xs ! i) (ys ! i)) [0..<length xs]"
  by (rule nth_equalityI) simp_all

lemma length_gather: "length (gather b inds) = length inds"
  by (simp add: gather_def)

lemma unclipped_eq:
  "length new = length inds \<Longrightarrow>
   0.5 * mean_of (map2 (\<lambda>v r. (v - r)\<^sup>2) new (gather b inds)) = spec_mse_value_loss new (gather b inds)"
  by (simp add: spec_mse_value_loss_def map2_conv_nth length_gather)

lemma clipped_eq:
  assumes "length new = length inds"
  shows "(let v_loss_unclipped = map2 (\<lambda>v r. (v - r)\<^sup>2) new (gather b_returns inds);
             v_clipped = map2 (\<lambda>old v. old + clamp (v - old) (- c) c) (gather b_values inds) new;
             v_loss_clipped = map2 (\<lambda>c r. (c - r)\<^sup>2) v_clipped (gather b_returns inds);
             v_loss_max = map2 max v_loss_unclipped v_loss_clipped
         in 0.5 * mean_of v_loss_max)
       = spec_clipped_value_loss c new (gather b_values inds) (gather b_returns inds)"
proof -
  let ?n = "length inds"
  have 1: "map2 (\<lambda>v r. (v - r)\<^sup>2) new (gather b_returns inds)
           = map (\<lambda>i. (new ! i - gather b_returns inds ! i)\<^sup>2) [0..<?n]"
    using assms by (simp add: map2_conv_nth length_gather)
  have 2: "map2 (\<lambda>old v. old + clamp (v - old) (- c) c) (gather b_values inds) new
           = map (\<lambda>i. gather b_values inds ! i + clamp (new ! i - gather b_values inds ! i) (- c) c) [0..<?n]"
    using assms by (simp add: map2_conv_nth length_gather)
  have 3: "map2 (\<lambda>c r. (c - r)\<^sup>2)
             (map (\<lambda>i. gather b_values inds ! i + clamp (new ! i - gather b_values inds ! i) (- c) c) [0..<?n])
             (gather b_returns inds)
           = map (\<lambda>i. (gather b_values inds ! i + clamp (new ! i - gather b_values inds ! i) (- c) c
                        - gather b_returns inds ! i)\<^sup>2) [0..<?n]"
    by (rule nth_equalityI) (simp_all add: length_gather)
  have 4: "map2 max (map (\<lambda>i. (new ! i - gather b_returns inds ! i)\<^sup>2) [0..<?n])
              (map (\<lambda>i. (gather b_values inds ! i + clamp (new ! i - gather b_values inds ! i) (- c) c
                        - gather b_returns inds ! i)\<^sup>2) [0..<?n])
           = map (\<lambda>i. max ((new ! i - gather b_returns inds ! i)\<^sup>2)
                     ((gather b_values inds ! i + clamp (new ! i - gather b_values inds ! i) (- c) c
                        - gather b_returns inds ! i)\<^sup>2)) [0..<?n]"
    by (rule nth_equalityI) simp_all
  show ?thesis
    unfolding Let_def 1 2 3 4 spec_clipped_value_loss_def using assms by simp
qed

lemma clipped_value_loss_unfolded:
  assumes "length new = length inds"
  shows "0.5 * mean_of (map2 max (map2 (\<lambda>v r. (v - r)\<^sup>2) new (gather b_returns inds))
           (map2 (\<lambda>c r. (c - r)\<^sup>2)
              (map2 (\<lambda>old v. old + clamp (v - old) (- c) c) (gather b_values inds) new)
              (gather b_returns inds)))
       = spec_clipped_value_loss c new (gather b_values inds) (gather b_returns inds)"
  using clipped_eq [OF assms, of b_returns c b_values] unfolding Let_def .

text \<open>
  Claim C8, as the code has it. With clipping enabled the loss of the extrinsic head (in
  \<^verbatim>\<open>ppo_rle.py\<close>: of the only head) clips the value change to within the clip coefficient
  and is 0.5 times the mean of the elementwise maximum of the clipped and unclipped
  squared errors against the returns; without clipping it is 0.5 times the mean squared
  error. In \<^verbatim>\<open>ppo_rnd.py\<close> the intrinsic head's loss is always 0.5 times the mean squared
  error against the intrinsic returns, never clipped, and the total value loss is the
  unweighted sum of the two. The new values have one entry per minibatch index.
\<close>

theorem value_loss_heads:
  assumes "length new_ext = length mb_inds" "length new_int = length mb_inds"
    "length newvalue = length mb_inds"
  shows "rnd_v_loss clip_vloss c new_ext new_int b_ext_returns b_int_returns b_ext_values mb_inds
       = (if clip_vloss
          then spec_clipped_value_loss c new_ext (gather b_ext_values mb_inds)
                 (gather b_ext_returns mb_inds)
          else spec_mse_value_loss new_ext (gather b_ext_returns mb_inds))
         + spec_mse_value_loss new_int (gather b_int_returns mb_inds)
     \<and> rle_v_loss clip_vloss c newvalue b_returns b_values mb_inds
       = (if clip_vloss
          then spec_clipped_value_loss c newvalue (gather b_values mb_inds)
                 (gather b_returns mb_inds)
          else spec_mse_value_loss newvalue (gather b_returns mb_inds))"
  unfolding rnd_v_loss_def rle_v_loss_def Let_def
    clipped_value_loss_unfolded [OF assms(1)] clipped_value_loss_unfolded [OF assms(3)]
    unclipped_eq [OF assms(1)] unclipped_eq [OF assms(2)] unclipped_eq [OF assms(3)]
  by (rule conjI) (rule refl)+

theorem value_loss_heads_witness:
  "length [1 :: real] = length [1 :: nat]
   \<and> length [2 :: real] = length [1 :: nat]
   \<and> rnd_v_loss True (1 / 5) [1] [2] [0, 3] [0, 1] [0, 1 / 2] [1] = 629 / 200
   \<and> rle_v_loss True (1 / 5) [1] [0, 3] [0, 1 / 2] [1] = 529 / 200"
proof -
  have l1: "length [1 :: real] = length [1 :: nat]" by simp
  have l2: "length [2 :: real] = length [1 :: nat]" by simp
  show ?thesis
    using value_loss_heads [OF l1 l2 l1, of True "1 / 5" "[0, 3]" "[0, 1]" "[0, 1 / 2]"
        "[0, 3]" "[0, 1 / 2]"]
    by (simp add: spec_clipped_value_loss_def spec_mse_value_loss_def gather_def mean_of_def
        clamp_def power2_eq_square)
qed

text \<open>
  Claim C8 as stated fails for the intrinsic head: with clipping enabled, one sample, an
  old intrinsic value of 1, a new intrinsic value of 0 and an intrinsic return of 0, the
  clipped loss of the intrinsic head would be 0.5 * 0.64, while the code's intrinsic loss
  is 0 (the extrinsic head contributes 0 in both).
\<close>

theorem rnd_v_loss_intrinsic_counterexample:
  "rnd_v_loss True (1 / 5) [0] [0] [0] [0] [0] [0]
   \<noteq> spec_clipped_value_loss (1 / 5) [0] (gather [0] [0]) (gather [0] [0])
     + spec_clipped_value_loss (1 / 5) [0] (gather [1] [0]) (gather [0] [0])"
  by (simp add: rnd_v_loss_def spec_clipped_value_loss_def gather_def mean_of_def clamp_def
      Let_def)

subsection \<open>Generalised advantage estimation\<close>

lemma gae_row_nth:
  "n < length r \<Longrightarrow>
   gae_row g lam r nv nnt v lg ! n =
     (r ! n + g * nv ! n * nnt ! n - v ! n) + g * lam * nnt ! n * lg ! n"
  by (simp add: gae_row_def)

lemma length_gae_row: "length (gae_row g lam r nv nnt v lg) = length r"
  by (simp add: gae_row_def)

lemma loop_down_rec:
  fixes adv :: "'s \<Rightarrow> 'a list" and lst :: "'s \<Rightarrow> 'a"
  assumes body_adv: "\<And>t s. adv (body t s) = (adv s)[t := F t (lst s)]"
      and body_lst: "\<And>t s. lst (body t s) = F t (lst s)"
  shows "k \<le> length (adv s) \<Longrightarrow>
     length (adv (loop_down k body s)) = length (adv s)
     \<and> (\<forall>t\<ge>k. adv (loop_down k body s) ! t = adv s ! t)
     \<and> (\<forall>t<k. adv (loop_down k body s) ! t =
            F t (if Suc t = k then lst s else adv (loop_down k body s) ! Suc t))"
proof (induction k arbitrary: s)
  case 0
  then show ?case by simp
next
  case (Suc k)
  let ?s' = "body k s"
  let ?R = "adv (loop_down k body ?s')"
  have len': "length (adv ?s') = length (adv s)" by (simp add: body_adv)
  have k: "k < length (adv s)" using Suc.prems by simp
  have IH: "length ?R = length (adv ?s')
     \<and> (\<forall>t\<ge>k. ?R ! t = adv ?s' ! t)
     \<and> (\<forall>t<k. ?R ! t = F t (if Suc t = k then lst ?s' else ?R ! Suc t))"
    using Suc.IH [of ?s'] k len' by simp
  have Rk: "?R ! k = F k (lst s)"
    using IH k by (simp add: body_adv)
  have 1: "length ?R = length (adv s)" using IH len' by simp
  have 2: "\<forall>t\<ge>Suc k. ?R ! t = adv s ! t"
    using IH by (simp add: body_adv)
  have 3: "\<forall>t<Suc k. ?R ! t = F t (if Suc t = Suc k then lst s else ?R ! Suc t)"
  proof (intro allI impI)
    fix t assume t: "t < Suc k"
    show "?R ! t = F t (if Suc t = Suc k then lst s else ?R ! Suc t)"
    proof (cases "t = k")
      case True
      then show ?thesis using Rk by simp
    next
      case False
      with t have tk: "t < k" by simp
      show ?thesis
      proof (cases "Suc t = k")
        case True
        then show ?thesis using IH tk Rk by (simp add: body_lst)
      next
        case False
        then show ?thesis using IH tk by simp
      qed
    qed
  qed
  show ?case using 1 2 3 by simp
qed

lemma rnd_body_ext:
  "ext_advantages (rnd_gae_body g ig lam T N b t s) = (ext_advantages s)[t := ext_F g lam T b t (ext_lastgaelam s)]"
  "ext_lastgaelam (rnd_gae_body g ig lam T N b t s) = ext_F g lam T b t (ext_lastgaelam s)"
  "int_advantages (rnd_gae_body g ig lam T N b t s) = (int_advantages s)[t := int_F ig lam T N b t (int_lastgaelam s)]"
  "int_lastgaelam (rnd_gae_body g ig lam T N b t s) = int_F ig lam T N b t (int_lastgaelam s)"
  by (simp_all add: rnd_gae_body_def Let_def ext_F_def int_F_def)

lemma rnd_ext_rows:
  assumes "t < T"
  shows "ext_advantages (loop_down T (rnd_gae_body g ig lam T N b) (rnd_init T N)) ! t =
           ext_F g lam T b t (if Suc t = T then replicate N 0
              else ext_advantages (loop_down T (rnd_gae_body g ig lam T N b) (rnd_init T N)) ! Suc t)"
    and "length (ext_advantages (loop_down T (rnd_gae_body g ig lam T N b) (rnd_init T N))) = T"
  using loop_down_rec [where adv = ext_advantages and lst = ext_lastgaelam
      and body = "rnd_gae_body g ig lam T N b" and F = "ext_F g lam T b"
      and k = T and s = "rnd_init T N", OF rnd_body_ext(1) rnd_body_ext(2)] assms
  by (simp_all add: rnd_init_def)

lemma rnd_int_rows:
  assumes "t < T"
  shows "int_advantages (loop_down T (rnd_gae_body g ig lam T N b) (rnd_init T N)) ! t =
           int_F ig lam T N b t (if Suc t = T then replicate N 0
              else int_advantages (loop_down T (rnd_gae_body g ig lam T N b) (rnd_init T N)) ! Suc t)"
    and "length (int_advantages (loop_down T (rnd_gae_body g ig lam T N b) (rnd_init T N))) = T"
  using loop_down_rec [where adv = int_advantages and lst = int_lastgaelam
      and body = "rnd_gae_body g ig lam T N b" and F = "int_F ig lam T N b"
      and k = T and s = "rnd_init T N", OF rnd_body_ext(3) rnd_body_ext(4)] assms
  by (simp_all add: rnd_init_def)

lemma rnd_gae_ext:
  assumes sh: "rnd_shaped T N b" and t: "t < T" and n: "n < N"
    and r: "rnd_gae g ig lam T N b = ((ea, ia), (er, ir))"
  shows "ea ! t ! n =
      (rewards b ! t ! n
        + g * (if t = T - 1 then next_value_ext b else ext_values b ! (t + 1)) ! n
            * (1 - (if t = T - 1 then next_done b else dones b ! (t + 1)) ! n)
        - ext_values b ! t ! n)
      + g * lam * (1 - (if t = T - 1 then next_done b else dones b ! (t + 1)) ! n)
          * (if t = T - 1 then 0 else ea ! (t + 1) ! n)"
proof -
  have ea: "ea = ext_advantages (loop_down T (rnd_gae_body g ig lam T N b) (rnd_init T N))"
    using r by (simp add: rnd_gae_def Let_def rnd_init_def)
  have lr: "length (rewards b ! t) = N" using sh t by (simp add: rnd_shaped_def)
  have ld: "length (next_done b) = N" using sh by (simp add: rnd_shaped_def)
  have ld': "Suc t < T \<Longrightarrow> length (dones b ! Suc t) = N" using sh by (simp add: rnd_shaped_def)
  show ?thesis
  proof (cases "Suc t = T")
    case True
    then have tT: "t = T - 1" by simp
    show ?thesis
      unfolding ea rnd_ext_rows(1) [OF t, of g ig lam N b]
      using True tT n lr ld by (simp add: ext_F_def gae_row_nth)
  next
    case False
    then have tT: "t \<noteq> T - 1" and st: "Suc t < T" using t by simp_all
    show ?thesis
      apply (subst ea)
      apply (subst rnd_ext_rows(1) [OF t, of g ig lam N b])
      using False tT n lr ld' [OF st] by (simp add: ext_F_def gae_row_nth ea)
  qed
qed


lemma rnd_gae_int:
  assumes sh: "rnd_shaped T N b" and t: "t < T" and n: "n < N"
    and r: "rnd_gae g ig lam T N b = ((ea, ia), (er, ir))"
  shows "ia ! t ! n =
      (curiosity_rewards b ! t ! n
        + ig * (if t = T - 1 then next_value_int b else int_values b ! (t + 1)) ! n * 1
        - int_values b ! t ! n)
      + ig * lam * 1 * (if t = T - 1 then 0 else ia ! (t + 1) ! n)"
proof -
  have ia: "ia = int_advantages (loop_down T (rnd_gae_body g ig lam T N b) (rnd_init T N))"
    using r by (simp add: rnd_gae_def Let_def rnd_init_def)
  have lr: "length (curiosity_rewards b ! t) = N" using sh t by (simp add: rnd_shaped_def)
  show ?thesis
  proof (cases "Suc t = T")
    case True
    then have tT: "t = T - 1" by simp
    show ?thesis
      unfolding ia rnd_int_rows(1) [OF t, of g ig lam N b]
      using True tT n lr by (simp add: int_F_def gae_row_nth)
  next
    case False
    then have tT: "t \<noteq> T - 1" and st: "Suc t < T" using t by simp_all
    show ?thesis
      apply (subst ia)
      apply (subst rnd_int_rows(1) [OF t, of g ig lam N b])
      using False tT n lr by (simp add: int_F_def gae_row_nth ia)
  qed
qed

lemma rnd_gae_returns:
  assumes sh: "rnd_shaped T N b" and t: "t < T" and n: "n < N"
    and r: "rnd_gae g ig lam T N b = ((ea, ia), (er, ir))"
  shows "er ! t ! n = ea ! t ! n + ext_values b ! t ! n"
    and "ir ! t ! n = ia ! t ! n + int_values b ! t ! n"
proof -
  let ?s = "loop_down T (rnd_gae_body g ig lam T N b) (rnd_init T N)"
  have ea: "ea = ext_advantages ?s" and ia: "ia = int_advantages ?s"
    and er: "er = map2 (map2 (+)) ea (ext_values b)"
    and ir: "ir = map2 (map2 (+)) ia (int_values b)"
    using r by (auto simp: rnd_gae_def Let_def rnd_init_def)
  have lea: "length ea = T" unfolding ea by (rule rnd_ext_rows(2) [OF t])
  have lia: "length ia = T" unfolding ia by (rule rnd_int_rows(2) [OF t])
  have lev: "length (ext_values b) = T" "length (int_values b) = T"
    using sh by (simp_all add: rnd_shaped_def)
  have rows: "length (ext_values b ! t) = N" "length (int_values b ! t) = N"
    "length (rewards b ! t) = N" "length (curiosity_rewards b ! t) = N"
    using sh t by (simp_all add: rnd_shaped_def)
  have leat: "length (ea ! t) = N"
    unfolding ea rnd_ext_rows(1) [OF t, of g ig lam N b]
    by (simp add: ext_F_def length_gae_row rows)
  have liat: "length (ia ! t) = N"
    unfolding ia rnd_int_rows(1) [OF t, of g ig lam N b]
    by (simp add: int_F_def length_gae_row rows)
  show "er ! t ! n = ea ! t ! n + ext_values b ! t ! n"
    using t n lea lev leat rows by (simp add: er)
  show "ir ! t ! n = ia ! t ! n + int_values b ! t ! n"
    using t n lia lev liat rows by (simp add: ir)
qed

lemma rle_body:
  "fst (rle_gae_body g lam T b t s) = (fst s)[t := rle_F g lam T b t (snd s)]"
  "snd (rle_gae_body g lam T b t s) = rle_F g lam T b t (snd s)"
  by (simp_all add: rle_gae_body_def Let_def rle_F_def)

lemma rle_rows:
  assumes "t < T"
  shows "fst (loop_down T (rle_gae_body g lam T b) (replicate T (replicate N 0), replicate N 0)) ! t =
           rle_F g lam T b t (if Suc t = T then replicate N 0
              else fst (loop_down T (rle_gae_body g lam T b)
                     (replicate T (replicate N 0), replicate N 0)) ! Suc t)"
    and "length (fst (loop_down T (rle_gae_body g lam T b)
            (replicate T (replicate N 0), replicate N 0))) = T"
  using loop_down_rec [where adv = fst and lst = snd
      and body = "rle_gae_body g lam T b" and F = "rle_F g lam T b"
      and k = T and s = "(replicate T (replicate N 0), replicate N 0)",
      OF rle_body(1) rle_body(2)] assms
  by simp_all

lemma rle_gae_adv:
  assumes sh: "rle_shaped T N b" and t: "t < T" and n: "n < N"
    and r: "rle_gae g lam T N b = (adv, ret)"
  shows "adv ! t ! n =
      (rle_rewards b ! t ! n
        + g * (if t = T - 1 then rle_next_value b else rle_values b ! (t + 1)) ! n
            * (1 - (if t = T - 1 then rle_next_done b else rle_dones b ! (t + 1)) ! n)
        - rle_values b ! t ! n)
      + g * lam * (1 - (if t = T - 1 then rle_next_done b else rle_dones b ! (t + 1)) ! n)
          * (if t = T - 1 then 0 else adv ! (t + 1) ! n)"
    and "ret ! t ! n = adv ! t ! n + rle_values b ! t ! n"
proof -
  let ?s = "loop_down T (rle_gae_body g lam T b) (replicate T (replicate N 0), replicate N 0)"
  have adv: "adv = fst ?s" and ret: "ret = map2 (map2 (+)) adv (rle_values b)"
    using r by (auto simp: rle_gae_def Let_def)
  have lr: "length (rle_rewards b ! t) = N" "length (rle_values b ! t) = N"
    using sh t by (simp_all add: rle_shaped_def)
  have lv: "length (rle_values b) = T" using sh by (simp add: rle_shaped_def)
  have ld: "length (rle_next_done b) = N" using sh by (simp add: rle_shaped_def)
  have ld': "Suc t < T \<Longrightarrow> length (rle_dones b ! Suc t) = N"
    using sh by (simp add: rle_shaped_def)
  have la: "length adv = T" unfolding adv by (rule rle_rows(2) [OF t])
  have lat: "length (adv ! t) = N"
    unfolding adv rle_rows(1) [OF t, of g lam b N]
    by (simp add: rle_F_def length_gae_row lr)
  show "adv ! t ! n =
      (rle_rewards b ! t ! n
        + g * (if t = T - 1 then rle_next_value b else rle_values b ! (t + 1)) ! n
            * (1 - (if t = T - 1 then rle_next_done b else rle_dones b ! (t + 1)) ! n)
        - rle_values b ! t ! n)
      + g * lam * (1 - (if t = T - 1 then rle_next_done b else rle_dones b ! (t + 1)) ! n)
          * (if t = T - 1 then 0 else adv ! (t + 1) ! n)"
  proof (cases "Suc t = T")
    case True
    then have tT: "t = T - 1" by simp
    show ?thesis
      unfolding adv rle_rows(1) [OF t, of g lam b N]
      using True tT n lr ld by (simp add: rle_F_def gae_row_nth)
  next
    case False
    then have tT: "t \<noteq> T - 1" and st: "Suc t < T" using t by simp_all
    show ?thesis
      apply (subst adv)
      apply (subst rle_rows(1) [OF t, of g lam b N])
      using False tT n lr ld' [OF st] by (simp add: rle_F_def gae_row_nth adv)
  qed
  show "ret ! t ! n = adv ! t ! n + rle_values b ! t ! n"
    using t n la lv lat lr by (simp add: ret)
qed


text \<open>
  Claim C6. The loops run over the steps from the last to the first with one accumulator
  per environment. For step \<open>t\<close> and environment \<open>n\<close>, writing \<open>V'\<close>, \<open>d'\<close> and \<open>A'\<close> for the value,
  the done flag and the advantage of step \<open>t + 1\<close>, the advantage is
  \<open>(r + gamma * V' * (1 - d') - V) + gamma * lambda * (1 - d') * A'\<close>; at the last step \<open>V'\<close> is the
  bootstrap value, \<open>d'\<close> the next-done flag and \<open>A'\<close> is 0. The returns are advantages plus
  values. In \<^verbatim>\<open>ppo_rnd.py\<close> the intrinsic stream has the factor 1 in place of \<open>1 - d'\<close> at every
  step, the last included. Stated for buffers of \<open>T\<close> steps and \<open>N\<close> environments, for both
  scripts.
\<close>

theorem gae_recurrence:
  assumes "rnd_shaped T N b" and "rle_shaped T N c" and "t < T" and "n < N"
  shows "(case rnd_gae g ig lam T N b of
            ((ea, ia), (er, ir)) \<Rightarrow>
              ea ! t ! n =
                (rewards b ! t ! n
                  + g * (if t = T - 1 then next_value_ext b else ext_values b ! (t + 1)) ! n
                      * (1 - (if t = T - 1 then next_done b else dones b ! (t + 1)) ! n)
                  - ext_values b ! t ! n)
                + g * lam * (1 - (if t = T - 1 then next_done b else dones b ! (t + 1)) ! n)
                    * (if t = T - 1 then 0 else ea ! (t + 1) ! n)
              \<and> ia ! t ! n =
                (curiosity_rewards b ! t ! n
                  + ig * (if t = T - 1 then next_value_int b else int_values b ! (t + 1)) ! n * 1
                  - int_values b ! t ! n)
                + ig * lam * 1 * (if t = T - 1 then 0 else ia ! (t + 1) ! n)
              \<and> er ! t ! n = ea ! t ! n + ext_values b ! t ! n
              \<and> ir ! t ! n = ia ! t ! n + int_values b ! t ! n)
       \<and> (case rle_gae g lam T N c of
            (adv, ret) \<Rightarrow>
              adv ! t ! n =
                (rle_rewards c ! t ! n
                  + g * (if t = T - 1 then rle_next_value c else rle_values c ! (t + 1)) ! n
                      * (1 - (if t = T - 1 then rle_next_done c else rle_dones c ! (t + 1)) ! n)
                  - rle_values c ! t ! n)
                + g * lam * (1 - (if t = T - 1 then rle_next_done c else rle_dones c ! (t + 1)) ! n)
                    * (if t = T - 1 then 0 else adv ! (t + 1) ! n)
              \<and> ret ! t ! n = adv ! t ! n + rle_values c ! t ! n)"
proof -
  obtain ea ia er ir where r: "rnd_gae g ig lam T N b = ((ea, ia), (er, ir))"
    by (metis surj_pair)
  obtain adv ret where l: "rle_gae g lam T N c = (adv, ret)"
    by (metis surj_pair)
  note rnd = assms(1,3,4) r
  note rle = assms(2,3,4) l
  show ?thesis
    unfolding r l prod.case
    by (intro conjI rnd_gae_ext [OF rnd] rnd_gae_int [OF rnd] rnd_gae_returns [OF rnd]
        rle_gae_adv [OF rle])
qed

theorem gae_recurrence_witness:
  "rnd_shaped 2 1 \<lparr>rewards = [[1], [2]], curiosity_rewards = [[1], [1]], dones = [[0], [1]],
       ext_values = [[3], [4]], int_values = [[1], [2]], next_done = [0],
       next_value_ext = [5], next_value_int = [3]\<rparr>
   \<and> rle_shaped 2 1 \<lparr>rle_rewards = [[1], [2]], rle_dones = [[0], [1]], rle_values = [[3], [4]],
       rle_next_done = [0], rle_next_value = [5]\<rparr>
   \<and> (0 :: nat) < 2 \<and> (0 :: nat) < 1
   \<and> rnd_gae (1 / 2) (1 / 2) (1 / 2) 2 1
        \<lparr>rewards = [[1], [2]], curiosity_rewards = [[1], [1]], dones = [[0], [1]],
         ext_values = [[3], [4]], int_values = [[1], [2]], next_done = [0],
         next_value_ext = [5], next_value_int = [3]\<rparr>
       = (([[- 2], [1 / 2]], [[9 / 8], [1 / 2]]), ([[1], [9 / 2]], [[17 / 8], [5 / 2]]))
   \<and> rle_gae (1 / 2) (1 / 2) 2 1
        \<lparr>rle_rewards = [[1], [2]], rle_dones = [[0], [1]], rle_values = [[3], [4]],
         rle_next_done = [0], rle_next_value = [5]\<rparr>
       = ([[- 2], [1 / 2]], [[1], [9 / 2]])"
proof -
  let ?b = "\<lparr>rewards = [[1], [2]], curiosity_rewards = [[1], [1]], dones = [[0], [1]],
       ext_values = [[3], [4]], int_values = [[1], [2]], next_done = [0],
       next_value_ext = [5], next_value_int = [3]\<rparr>"
  let ?c = "\<lparr>rle_rewards = [[1], [2]], rle_dones = [[0], [1]], rle_values = [[3], [4]],
       rle_next_done = [0], rle_next_value = [5]\<rparr>"
  have sb: "rnd_shaped 2 1 ?b"
    by (simp add: rnd_shaped_def less_Suc_eq numeral_2_eq_2)
  have sc: "rle_shaped 2 1 ?c"
    by (simp add: rle_shaped_def less_Suc_eq numeral_2_eq_2)
  have t: "(0 :: nat) < 2" and n: "(0 :: nat) < 1" by simp_all
  show ?thesis
    using sb sc gae_recurrence [OF sb sc t n, of "1 / 2" "1 / 2" "1 / 2"]
    by (simp add: rnd_gae_def rnd_gae_body_def rle_gae_def rle_gae_body_def gae_row_def Let_def
        numeral_2_eq_2)
qed

subsection \<open>Policy loss\<close>

lemma sum_list_shift_scale:
  "sum_list (map (\<lambda>a. (a - m) / k) xs) = (sum_list xs - real (length xs) * m) / k"
  by (induction xs) (simp_all add: field_simps add_divide_distrib diff_divide_distrib)

lemma var_of_nonneg: "0 \<le> var_of xs"
proof -
  have "0 \<le> sum_list (map (\<lambda>a. (a - mean_of xs)\<^sup>2) xs)"
    by (rule sum_list_nonneg) auto
  then show ?thesis
    unfolding var_of_def
    by (cases xs) simp_all
qed

lemma std_of_nonneg: "0 \<le> std_of xs"
  by (simp add: std_of_def var_of_nonneg)

lemma normalized_mean_zero:
  "xs \<noteq> [] \<Longrightarrow> mean_of (normalize_advantages xs) = 0"
proof -
  assume "xs \<noteq> []"
  then have n: "real (length xs) \<noteq> 0" by simp
  have "sum_list (normalize_advantages xs) =
        (sum_list xs - real (length xs) * mean_of xs) / (std_of xs + 1 / 10 ^ 8)"
    unfolding normalize_advantages_def by (rule sum_list_shift_scale)
  also have "real (length xs) * mean_of xs = sum_list xs"
    using n by (simp add: mean_of_def)
  finally have "sum_list (normalize_advantages xs) = 0" by simp
  then show ?thesis by (simp add: mean_of_def)
qed

lemma sum_list_sq_scale:
  "sum_list (map (\<lambda>a. ((a - m) / k)\<^sup>2) xs) = sum_list (map (\<lambda>a. (a - m)\<^sup>2) xs) / (k :: real)\<^sup>2"
  by (induction xs) (simp_all add: power_divide add_divide_distrib)

lemma normalized_std:
  assumes "xs \<noteq> []"
  shows "std_of (normalize_advantages xs) = std_of xs / (std_of xs + 1 / 10 ^ 8)"
proof -
  let ?k = "std_of xs + 1 / 10 ^ 8"
  have k: "0 < ?k" using std_of_nonneg [of xs] by (simp add: add_nonneg_pos)
  have m0: "mean_of (normalize_advantages xs) = 0"
    using assms by (rule normalized_mean_zero)
  have "var_of (normalize_advantages xs)
        = sum_list (map (\<lambda>a. a\<^sup>2) (normalize_advantages xs)) / (real (length xs) - 1)"
    by (simp add: var_of_def m0) (simp add: normalize_advantages_def)
  also have "sum_list (map (\<lambda>a. a\<^sup>2) (normalize_advantages xs))
        = sum_list (map (\<lambda>a. ((a - mean_of xs) / ?k)\<^sup>2) xs)"
    by (simp add: normalize_advantages_def comp_def)
  also have "\<dots> = sum_list (map (\<lambda>a. (a - mean_of xs)\<^sup>2) xs) / ?k\<^sup>2"
    by (rule sum_list_sq_scale)
  finally have "var_of (normalize_advantages xs) = var_of xs / ?k\<^sup>2"
    by (simp add: var_of_def)
  then have "std_of (normalize_advantages xs) = sqrt (var_of xs) / sqrt (?k\<^sup>2)"
    by (simp add: std_of_def real_sqrt_divide)
  also have "sqrt (?k\<^sup>2) = ?k" using k by simp
  finally show ?thesis by (simp add: std_of_def)
qed

lemma length_normalize: "length (normalize_advantages xs) = length xs"
  by (simp add: normalize_advantages_def)

text \<open>
  For a minibatch of two samples or more (of one or more without normalisation) the
  policy loss is the mean over the minibatch of
  \<open>max (- A * ratio) (- A * clip ratio (1 - eps) (1 + eps))\<close> with
  \<open>ratio = exp (new_log_prob - old_log_prob)\<close>, where \<open>A\<close> is the advantage gathered for the
  minibatch, normalised when \<^verbatim>\<open>norm_adv\<close> is set. The normalisation uses the mean and the
  standard deviation of the minibatch's own advantages: the normalised advantages have
  mean 0 and standard deviation \<open>std / (std + 1e-8)\<close>.
\<close>

lemma pg_loss_finite:
  assumes len: "length newlogprob = length mb_inds"
    and ne: "1 \<le> length mb_inds" and two: "norm_adv \<longrightarrow> 2 \<le> length mb_inds"
  shows "pg_loss norm_adv c newlogprob b_logprobs b_advantages mb_inds =
     Some (let adv = (if norm_adv then normalize_advantages (gather b_advantages mb_inds)
                      else gather b_advantages mb_inds);
               ratio = (\<lambda>i. exp (newlogprob ! i - b_logprobs ! (mb_inds ! i)))
           in mean_of (map (\<lambda>i. max (- (adv ! i) * ratio i)
                                    (- (adv ! i) * clamp (ratio i) (1 - c) (1 + c)))
                         [0..<length mb_inds]))"
proof -
  define adv where "adv = (if norm_adv then normalize_advantages (gather b_advantages mb_inds)
                 else gather b_advantages mb_inds)"
  define ratio where "ratio = map exp (map2 (-) newlogprob (gather b_logprobs mb_inds))"
  have la: "length adv = length mb_inds"
    by (simp add: adv_def length_gather length_normalize)
  have lr: "length ratio = length mb_inds"
    by (simp add: ratio_def length_gather len)
  have r: "\<And>i. i < length mb_inds \<Longrightarrow> ratio ! i = exp (newlogprob ! i - b_logprobs ! (mb_inds ! i))"
    by (simp add: ratio_def length_gather len gather_def)
  have nonempty: "mb_inds \<noteq> []" using ne by auto
  have norm: "(if norm_adv
             then (case (torch_mean (gather b_advantages mb_inds),
                         torch_std (gather b_advantages mb_inds)) of
                     (Some m, Some sd) \<Rightarrow>
                       Some (map (\<lambda>a. (a - m) / (sd + 1 / 10 ^ 8)) (gather b_advantages mb_inds))
                   | _ \<Rightarrow> None)
             else Some (gather b_advantages mb_inds)) = Some adv"
    using two nonempty
    by (auto simp: adv_def torch_mean_def torch_std_def normalize_advantages_def length_gather
        gather_def)
  have lm: "map2 max (map2 (\<lambda>a r. - a * r) adv ratio)
                     (map2 (\<lambda>a r. - a * clamp r (1 - c) (1 + c)) adv ratio) \<noteq> []"
    using nonempty la lr by (cases adv; cases ratio) auto
  have "pg_loss norm_adv c newlogprob b_logprobs b_advantages mb_inds =
        torch_mean (map2 max (map2 (\<lambda>a r. - a * r) adv ratio)
                     (map2 (\<lambda>a r. - a * clamp r (1 - c) (1 + c)) adv ratio))"
    by (simp only: pg_loss_def Let_def norm option.case ratio_def)
  also have "\<dots> = Some (mean_of (map2 max (map2 (\<lambda>a r. - a * r) adv ratio)
                     (map2 (\<lambda>a r. - a * clamp r (1 - c) (1 + c)) adv ratio)))"
    using lm by (simp add: torch_mean_def)
  also have "map2 max (map2 (\<lambda>a r. - a * r) adv ratio)
                     (map2 (\<lambda>a r. - a * clamp r (1 - c) (1 + c)) adv ratio)
      = map (\<lambda>i. max (- (adv ! i) * exp (newlogprob ! i - b_logprobs ! (mb_inds ! i)))
                   (- (adv ! i) * clamp (exp (newlogprob ! i - b_logprobs ! (mb_inds ! i))) (1 - c) (1 + c)))
          [0..<length mb_inds]"
    by (rule nth_equalityI) (simp_all add: la lr r)
  finally show ?thesis
    by (simp add: Let_def adv_def)
qed

lemma pg_loss_normalisation:
  assumes "2 \<le> length mb_inds"
  shows "mean_of (normalize_advantages (gather b_advantages mb_inds)) = 0"
    and "std_of (normalize_advantages (gather b_advantages mb_inds))
       = std_of (gather b_advantages mb_inds) / (std_of (gather b_advantages mb_inds) + 1 / 10 ^ 8)"
proof -
  have ne: "gather b_advantages mb_inds \<noteq> []"
    using assms by (auto simp: gather_def)
  show "mean_of (normalize_advantages (gather b_advantages mb_inds)) = 0"
    using ne by (rule normalized_mean_zero)
  show "std_of (normalize_advantages (gather b_advantages mb_inds))
       = std_of (gather b_advantages mb_inds) / (std_of (gather b_advantages mb_inds) + 1 / 10 ^ 8)"
    using ne by (rule normalized_std)
qed

lemma pg_loss_clipping_example:
  "pg_loss False (1 / 5) [ln 2, ln (1 / 2)] [0, 0] [1, - 1] [0, 1] = Some (- (1 / 5))"
  by (simp add: pg_loss_def gather_def torch_mean_def mean_of_def clamp_def Let_def)

lemma pg_loss_one_sample:
  "length mb_inds < 2 \<Longrightarrow> pg_loss True c newlogprob b_logprobs b_advantages mb_inds = None"
  by (simp add: pg_loss_def torch_std_def length_gather Let_def split: option.splits)

text \<open>
  Claim C7, evaluated on the code for a minibatch of one sample. With 32 environments,
  128 steps and \<^verbatim>\<open>--num-minibatches 3\<close> the minibatch size is 1365 and the fourth slice
  \<^verbatim>\<open>b_inds[4095:5460]\<close> holds a single index. With normalisation enabled
  \<^verbatim>\<open>mb_advantages.std()\<close> of the one advantage is \<open>nan\<close>, the term \<open>+ 1e-8\<close> does not help, and the
  normalised advantage and the loss are \<open>nan\<close>: the advantage is not brought to mean 0 and
  the loss is not the mean of the clipped surrogate terms, which it is (here \<open>- 3\<close>) without
  normalisation.
\<close>

theorem pg_loss_one_sample_nan:
  "pg_loss True (1 / 5) [0] [0, 0, 0] [1, 2, 3] [2] = None
   \<and> pg_loss False (1 / 5) [0] [0, 0, 0] [1, 2, 3] [2] = Some (- 3)
   \<and> torch_std (gather [1, 2, 3] [2]) = None"
  by (simp add: pg_loss_def gather_def torch_mean_def torch_std_def mean_of_def clamp_def Let_def)

end
